theory Spec2Isabelle
  imports Complex_Main "HOL-Library.Word" "HOL-Library.Char_ord" "HOL-Library.List_Lexorder"
begin

section \<open>The query result as a dataframe\<close>

text \<open>
  The notebook cell \<^verbatim>\<open>cell1\<close> selects the dimensions Item.Brand, Item.Category, Date.Year,
  Date.Month, Store.State and the metric StoreSales.TotalSalesQuantity from the semantic
  view; the cell \<^verbatim>\<open>df\<close> converts the result with \<^verbatim>\<open>to_pandas()\<close>. A row of the
  dataframe has one cell per selected column. Every column of a warehouse result is
  nullable, so every cell is an option: \<open>None\<close> is the missing value (SQL NULL, NaN in
  the dataframe library).

  The quantity is a sum of integer quantities. The dataframe library holds such a column
  as 64-bit integers (dtype int64) when no cell is missing, and as 64-bit floating-point
  numbers (dtype float64) as soon as one cell is missing. A present cell is a 64-bit
  two's-complement integer in both cases (larger warehouse numbers are not modelled).
\<close>

type_synonym int64 = "64 word"

record row =
  BRAND :: "string option"
  CATEGORY :: "string option"
  YEAR :: "int option"
  MONTH :: "int option"
  STATE :: "string option"
  TOTALSALESQUANTITY :: "int64 option"

type_synonym dataframe = "row list"

text \<open>
  A number that the library computes:
  \<^item> \<open>Int64 w\<close>: an int64 scalar; its arithmetic wraps around at \<open>2 ^ 63\<close>;
  \<^item> \<open>Float64 q\<close>: the float64 nearest to the rational \<open>q\<close>; it is \<open>q\<close> itself when
    \<open>q\<close> is an integer of magnitude at most \<open>2 ^ 53\<close>;
  \<^item> \<open>Approx q\<close>: a float64 obtained from \<open>q\<close> by more than one rounded operation;
  \<^item> \<open>Not_finite\<close>: NaN or an infinity;
  \<^item> \<open>Undetermined\<close>: a float64 that this model does not determine, because the
    floating-point additions that produced it may have rounded (the result then depends
    on the order and the algorithm of the summation).
\<close>

datatype number = Int64 int64 | Float64 rat | Approx rat | Not_finite | Undetermined

text \<open>The value of a number that the model determines exactly.\<close>

fun num_val :: "number \<Rightarrow> rat option" where
  "num_val (Int64 w) = Some (of_int (sint w))"
| "num_val (Float64 q) = Some q"
| "num_val (Approx q) = None"
| "num_val Not_finite = None"
| "num_val Undetermined = None"

definition val :: "number \<Rightarrow> rat" where
  "val n = (case num_val n of Some x \<Rightarrow> x | None \<Rightarrow> 0)"

text \<open>A series indexed by group key: the labels with their values, in index order.\<close>

type_synonym series = "(string \<times> number) list"

datatype py_error = ValueError

subsection \<open>The dataframe library's reductions\<close>

text \<open>The dtype of a column of quantities: float64 exactly when a cell is missing.\<close>

definition has_missing :: "int64 option list \<Rightarrow> bool" where
  "has_missing col = list_ex (\<lambda>c. c = None) col"

text \<open>
  The sum of an int64 column: the running sum in 64-bit arithmetic, which wraps around.
\<close>

definition int64_sum :: "int64 option list \<Rightarrow> int64" where
  "int64_sum col = fold (\<lambda>c acc. case c of None \<Rightarrow> acc | Some v \<Rightarrow> acc + v) col 0"

text \<open>
  The sum of a float64 column skips the missing cells (\<^verbatim>\<open>skipna=True\<close>, the default);
  the sum of no cell is 0. One pass follows the integer sum \<open>s\<close> of the present cells and
  the sum \<open>a\<close> of their absolute values. While \<open>a\<close> is at most \<open>2 ^ 53\<close>, every cell
  and every partial sum, in any order, is an integer that float64 represents exactly, so
  the floating-point sum is \<open>s\<close> whatever the summation algorithm. Beyond that the library's
  result may be rounded, and the model leaves it undetermined.
\<close>

definition exact_limit :: int where
  "exact_limit = 2 ^ 53"

definition float64_acc :: "int64 option list \<Rightarrow> int \<times> int" where
  "float64_acc col =
     fold (\<lambda>c (s, a). case c of None \<Rightarrow> (s, a) | Some v \<Rightarrow> (s + sint v, a + \<bar>sint v\<bar>))
       col (0, 0)"

definition float64_sum :: "int64 option list \<Rightarrow> number" where
  "float64_sum col =
     (case float64_acc col of
        (s, a) \<Rightarrow> (if a \<le> exact_limit then Float64 (of_int s) else Undetermined))"

text \<open>
  \<^verbatim>\<open>sum()\<close> of cells of a column whose dtype is float64 (\<open>float64 = True\<close>) or int64.
\<close>

definition series_sum :: "bool \<Rightarrow> int64 option list \<Rightarrow> number" where
  "series_sum float64 col = (if float64 then float64_sum col else Int64 (int64_sum col))"

text \<open>
  \<^verbatim>\<open>Series.mean()\<close>: the cells are summed as float64 numbers (also those of an int64
  column, so this sum does not wrap around) and the sum is divided by the number of
  present cells; with no present cell the result is NaN, not an error. The division is
  one correctly rounded operation.
\<close>

definition series_count :: "int64 option list \<Rightarrow> nat" where
  "series_count col = fold (\<lambda>c n. case c of None \<Rightarrow> n | Some v \<Rightarrow> Suc n) col 0"

definition series_mean :: "int64 option list \<Rightarrow> number" where
  "series_mean col =
     (case float64_acc col of
        (s, a) \<Rightarrow>
          (if series_count col = 0 then Not_finite
           else if a \<le> exact_limit then Float64 (of_int s / of_nat (series_count col))
           else Undetermined))"

text \<open>
  \<^verbatim>\<open>groupby(key)\<close>: one pass over the rows puts each row's quantity cell into the bin of
  its key. A row whose key is missing belongs to no group (\<^verbatim>\<open>dropna=True\<close>, the
  default). The groups are indexed by the keys in sorted order (\<^verbatim>\<open>sort=True\<close>, the
  default). \<^verbatim>\<open>['TOTALSALESQUANTITY'].sum()\<close> then sums the cells of every group in the
  dtype of the whole column.
\<close>

type_synonym bins = "(string \<times> int64 option list) list"

fun group_add :: "string \<Rightarrow> int64 option \<Rightarrow> bins \<Rightarrow> bins" where
  "group_add k c [] = [(k, [c])]"
| "group_add k c ((k', cs) # bins) =
     (if k = k' then (k', cs @ [c]) # bins else (k', cs) # group_add k c bins)"

definition group_step :: "(row \<Rightarrow> string option) \<Rightarrow> row \<Rightarrow> bins \<Rightarrow> bins" where
  "group_step key r bins =
     (case key r of None \<Rightarrow> bins | Some k \<Rightarrow> group_add k (TOTALSALESQUANTITY r) bins)"

definition groupby :: "(row \<Rightarrow> string option) \<Rightarrow> dataframe \<Rightarrow> bins" where
  "groupby key df = sort_key fst (fold (group_step key) df [])"

definition groupby_sum :: "(row \<Rightarrow> string option) \<Rightarrow> dataframe \<Rightarrow> series" where
  "groupby_sum key df =
     map (\<lambda>g. (fst g, series_sum (has_missing (map TOTALSALESQUANTITY df)) (snd g)))
       (groupby key df)"

text \<open>
  \<^verbatim>\<open>Series.max()\<close> and \<^verbatim>\<open>Series.idxmax()\<close> of the grouped series. One pass keeps the
  first entry with the greatest value. The maximum of an empty series is NaN; \<^verbatim>\<open>idxmax\<close>
  of an empty series raises ValueError. When a value of the series is undetermined, so
  are its maximum and the label of the maximum (\<open>None\<close>).
\<close>

fun best :: "string \<times> number \<Rightarrow> series \<Rightarrow> string \<times> number" where
  "best b [] = b"
| "best b (e # s) = (if val (snd b) < val (snd e) then best e s else best b s)"

definition determined :: "series \<Rightarrow> bool" where
  "determined s = list_all (\<lambda>e. num_val (snd e) \<noteq> None) s"

definition series_max :: "series \<Rightarrow> number" where
  "series_max s =
     (case s of
        [] \<Rightarrow> Not_finite
      | e # s' \<Rightarrow> (if determined s then snd (best e s') else Undetermined))"

definition idxmax :: "series \<Rightarrow> py_error + string option" where
  "idxmax s =
     (case s of
        [] \<Rightarrow> Inl ValueError
      | e # s' \<Rightarrow> Inr (if determined s then Some (fst (best e s')) else None))"

text \<open>\<^verbatim>\<open>len(df['STATE'].unique())\<close>: the number of distinct cells, a missing cell counted as one.\<close>

definition nunique_cells :: "string option list \<Rightarrow> nat" where
  "nunique_cells col = length (remdups col)"

subsection \<open>The grouping block shared by both apps\<close>

text \<open>
  Both app cells (\<^verbatim>\<open>py_visualization\<close> and \<^verbatim>\<open>py_dashboard\<close>) contain the same block:
  \<^verbatim>\<open>
  if group_by == 'BRAND':
      grouped_data = df.groupby('BRAND')['TOTALSALESQUANTITY'].sum().reset_index()
      grouped_data = grouped_data.set_index('BRAND')
      chart_title = "Total Sales Quantity by Brand"
  else:  # group_by == 'STATE'
      grouped_data = df.groupby('STATE')['TOTALSALESQUANTITY'].sum().reset_index()
      grouped_data = grouped_data.set_index('STATE')
      chart_title = "Total Sales Quantity by State"
  \<close>
  \<^verbatim>\<open>reset_index()\<close> turns the index into a column and \<^verbatim>\<open>set_index\<close> turns that column
  back into the index: the frame \<^verbatim>\<open>grouped_data\<close> has the group keys as index and the one
  column TOTALSALESQUANTITY, which is the series that \<^verbatim>\<open>sum()\<close> returned.
\<close>

definition grouped_data :: "string \<Rightarrow> dataframe \<Rightarrow> series" where
  "grouped_data group_by df =
     (if group_by = ''BRAND'' then groupby_sum BRAND df else groupby_sum STATE df)"

definition chart_title :: "string \<Rightarrow> string" where
  "chart_title group_by =
     (if group_by = ''BRAND'' then ''Total Sales Quantity by Brand''
      else ''Total Sales Quantity by State'')"

subsection \<open>Widgets and the notebook's variable bindings\<close>

text \<open>
  \<^verbatim>\<open>st.selectbox("Select grouping option:", options=['BRAND', 'STATE'], index=0)\<close> returns
  the selected entry of \<open>options\<close>; \<^verbatim>\<open>st.checkbox("Show data table")\<close> returns
  whether the box is ticked. The state of a cell's two widgets is the user's input to it.
\<close>

datatype selection = Select_BRAND | Select_STATE

fun selectbox :: "selection \<Rightarrow> string" where
  "selectbox Select_BRAND = ''BRAND''"
| "selectbox Select_STATE = ''STATE''"

record widgets =
  selected :: selection
  show_data_table :: bool

text \<open>
  The Python cells of a notebook share one namespace. The variables that the two app cells
  read or assign: \<^verbatim>\<open>df\<close> (bound by the cell of that name) and the variables the apps
  assign themselves, unbound until an app has run.
\<close>

datatype 'a binding = Unbound | Bound 'a

record notebook_vars =
  v_df :: dataframe
  v_group_by :: "string binding"
  v_grouped_data :: "series binding"
  v_chart_title :: "string binding"
  v_total_sales :: "number binding"
  v_avg_sales :: "number binding"
  v_top_performer :: "number binding"
  v_top_performer_name :: "string option binding"

text \<open>What a cell hands to the chart, subheader and table renderers.\<close>

record rendering =
  subheader :: string
  bar_chart :: series
  data_table :: "series option"

subsection \<open>App 1: interactive data visualization\<close>

definition py_visualization :: "widgets \<Rightarrow> notebook_vars \<Rightarrow> notebook_vars \<times> rendering" where
  "py_visualization w vars =
     (let group_by = selectbox (selected w);
          grouped = grouped_data group_by (v_df vars);
          heading = chart_title group_by;
          vars' = vars\<lparr>v_group_by := Bound group_by, v_grouped_data := Bound grouped,
                       v_chart_title := Bound heading\<rparr>
      in (vars',
          \<lparr>subheader = heading, bar_chart = grouped,
           data_table = (if show_data_table w then Some grouped else None)\<rparr>))"

subsection \<open>App 2: dashboard\<close>

text \<open>
  \<^verbatim>\<open>str.title()\<close> on ASCII text: the first cased letter of every run of letters in upper
  case, the other letters of the run in lower case.
\<close>

definition is_lower :: "char \<Rightarrow> bool" where
  "is_lower c = (97 \<le> (of_char c :: nat) \<and> (of_char c :: nat) \<le> 122)"

definition is_upper :: "char \<Rightarrow> bool" where
  "is_upper c = (65 \<le> (of_char c :: nat) \<and> (of_char c :: nat) \<le> 90)"

definition upper_char :: "char \<Rightarrow> char" where
  "upper_char c = (if is_lower c then char_of ((of_char c :: nat) - 32) else c)"

definition lower_char :: "char \<Rightarrow> char" where
  "lower_char c = (if is_upper c then char_of ((of_char c :: nat) + 32) else c)"

fun title_from :: "bool \<Rightarrow> string \<Rightarrow> string" where
  "title_from previous_is_cased [] = []"
| "title_from previous_is_cased (c # cs) =
     (if is_lower c then (if previous_is_cased then c else upper_char c) # title_from True cs
      else if is_upper c then (if previous_is_cased then lower_char c else c) # title_from True cs
      else c # title_from False cs)"

definition str_title :: "string \<Rightarrow> string" where
  "str_title s = title_from False s"

text \<open>
  A metric card: its label, the number shown as its value (before \<^verbatim>\<open>f"{x:,.0f}"\<close> formats
  it) and its delta line.
\<close>

datatype delta =
    No_delta
  | Percent_of_total number
  | State_count nat
  | Top_name "string option"

record metric =
  label :: string
  number_shown :: number
  delta_shown :: delta

record dashboard = rendering +
  metric_cards :: "metric list"

text \<open>
  \<^verbatim>\<open>(avg_sales/total_sales)*100\<close> on the library's scalars: a NaN average stays NaN, and
  dividing by a total of zero gives an infinity or NaN with a warning, not an exception.
  Otherwise the result carries the rounding of the division and of the multiplication.
\<close>

definition percent_of_total :: "number \<Rightarrow> number \<Rightarrow> number" where
  "percent_of_total avg_sales total_sales =
     (if avg_sales = Not_finite \<or> num_val total_sales = Some 0 then Not_finite
      else (case (num_val avg_sales, num_val total_sales) of
              (Some a, Some t) \<Rightarrow> Approx (a / t * 100)
            | _ \<Rightarrow> Undetermined))"

text \<open>
  The cell assigns its variables in order and raises at
  \<^verbatim>\<open>top_performer_name = grouped_data['TOTALSALESQUANTITY'].idxmax()\<close> when the grouped
  series is empty: the variables assigned before that line keep their new values and
  nothing after it is rendered.
\<close>

definition py_dashboard :: "widgets \<Rightarrow> notebook_vars \<Rightarrow> notebook_vars \<times> (py_error + dashboard)" where
  "py_dashboard w vars =
     (let group_by = selectbox (selected w);
          grouped = grouped_data group_by (v_df vars);
          heading = chart_title group_by;
          quantities = map TOTALSALESQUANTITY (v_df vars);
          total_sales = series_sum (has_missing quantities) quantities;
          avg_sales = series_mean quantities;
          top_performer = series_max grouped;
          vars' = vars\<lparr>v_group_by := Bound group_by, v_grouped_data := Bound grouped,
                       v_chart_title := Bound heading, v_total_sales := Bound total_sales,
                       v_avg_sales := Bound avg_sales, v_top_performer := Bound top_performer\<rparr>
      in case idxmax grouped of
           Inl e \<Rightarrow> (vars', Inl e)
         | Inr top_performer_name \<Rightarrow>
             (vars'\<lparr>v_top_performer_name := Bound top_performer_name\<rparr>,
              Inr \<lparr>subheader = heading, bar_chart = grouped,
                   data_table = (if show_data_table w then Some grouped else None),
                   metric_cards =
                     [\<lparr>label = ''Total Sales Quantity'',
                       number_shown = total_sales,
                       delta_shown = No_delta\<rparr>,
                      (if group_by = ''BRAND''
                       then \<lparr>label = ''Average Sales per Brand'',
                             number_shown = avg_sales,
                             delta_shown = Percent_of_total (percent_of_total avg_sales total_sales)\<rparr>
                       else \<lparr>label = ''Average Sales per State'',
                             number_shown = avg_sales,
                             delta_shown = State_count (nunique_cells (map STATE (v_df vars)))\<rparr>),
                      \<lparr>label = ''Top '' @ str_title group_by,
                       number_shown = top_performer,
                       delta_shown = Top_name top_performer_name\<rparr>]\<rparr>))"

section \<open>The semantic view declared by the notebook\<close>

text \<open>
  The cell \<^verbatim>\<open>sql_step4\<close> declares the semantic view in five clauses. The declaration is
  data: it is transcribed clause by clause, every identifier as it is written. Unquoted
  SQL identifiers are case-insensitive (\<^verbatim>\<open>i_current_price\<close>, \<^verbatim>\<open>item.cost\<close>,
  \<^verbatim>\<open>Item.Brand\<close>), so identifiers are compared in upper case.
\<close>

definition ident :: "string \<Rightarrow> string" where
  "ident s = map upper_char s"

text \<open>
  The expression after \<^verbatim>\<open>as\<close> in a fact, dimension or metric: a column name, a name
  qualified by a table alias, or the aggregate \<^verbatim>\<open>SUM\<close> of an expression.
\<close>

datatype expr =
    Column string
  | Qualified string string
  | AGG_SUM expr

record logical_table =
  alias_name :: string
  base_table :: string
  primary_key :: "string list"
  synonyms :: "string list"
  comment :: String.literal

record relationship =
  rel_name :: string
  from_table :: string
  from_columns :: "string list"
  to_table :: string
  to_columns :: "string list"

record attribute =
  table_alias :: string
  attr_name :: string
  expression :: expr
  attr_synonyms :: "string list"
  attr_comment :: String.literal

record semantic_view =
  view_name :: string
  tables :: "logical_table list"
  relationships :: "relationship list"
  facts :: "attribute list"
  dimensions :: "attribute list"
  metrics :: "attribute list"

definition view_tables :: "logical_table list" where
  "view_tables =
    [\<lparr>alias_name = ''CUSTOMER'', base_table = ''CUSTOMER'', primary_key = [''C_CUSTOMER_SK''],
      synonyms = [''BUYER'', ''PURCHASER'', ''CLIENT'', ''CONSUMER''],
      comment = STR ''This table stores customer demographic information, specifically the birth year and country of origin, uniquely identified by a customer identifier (C_CUSTOMER_SK).''\<rparr>,
     \<lparr>alias_name = ''DATE'', base_table = ''DATE_DIM'', primary_key = [''D_DATE_SK''],
      synonyms = [''calendar'', ''date_reference''],
      comment = STR ''This table stores a dimension of dates, providing a single row for each date, with corresponding surrogate key, month of year, week sequence, and year, to support date-based analysis and reporting in a data warehouse or business intelligence environment''\<rparr>,
     \<lparr>alias_name = ''DEMO'', base_table = ''CUSTOMER_DEMOGRAPHICS'', primary_key = [''CD_DEMO_SK''],
      synonyms = [''client_data'', ''demographic_data''],
      comment = STR ''This table stores demographic information about customers, including a unique demographic key, credit rating, and marital status.''\<rparr>,
     \<lparr>alias_name = ''ITEM'', base_table = ''ITEM'', primary_key = [''I_ITEM_SK''],
      synonyms = [''product'', ''merchandise'', ''goods'', ''commodity''],
      comment = STR ''This table stores information about individual items in an inventory, including the brand, category, and class of the item, as well as its unique identifier (I_ITEM_SK), wholesale cost, and current selling price.''\<rparr>,
     \<lparr>alias_name = ''STORE'', base_table = ''STORE'', primary_key = [''S_STORE_SK''],
      synonyms = [''retail_store'', ''shop'', ''retail_outlet'', ''market_store''],
      comment = STR ''This table stores information about retail stores, including their market identification, floor space, location (state and country), unique store identifier, and tax percentage applicable to the store.''\<rparr>,
     \<lparr>alias_name = ''STORESALES'', base_table = ''STORE_SALES'', primary_key = [''SS_STORE_SK''],
      synonyms = [''store_sales'', ''sales_data'', ''store_revenue''],
      comment = STR ''This table captures sales data for a retail store, including demographic information about the customer, the item sold, the date of sale, the store location, the sales price, and the quantity sold.''\<rparr>]"

definition view_relationships :: "relationship list" where
  "view_relationships =
    [\<lparr>rel_name = ''SALESTOCUSTOMER'', from_table = ''STORESALES'', from_columns = [''SS_CUSTOMER_SK''],
      to_table = ''CUSTOMER'', to_columns = [''C_CUSTOMER_SK'']\<rparr>,
     \<lparr>rel_name = ''SALESTODATE'', from_table = ''STORESALES'', from_columns = [''SS_SOLD_DATE_SK''],
      to_table = ''DATE'', to_columns = [''D_DATE_SK'']\<rparr>,
     \<lparr>rel_name = ''SALESTODEMO'', from_table = ''STORESALES'', from_columns = [''SS_CDEMO_SK''],
      to_table = ''DEMO'', to_columns = [''CD_DEMO_SK'']\<rparr>,
     \<lparr>rel_name = ''SALESTOITEM'', from_table = ''STORESALES'', from_columns = [''SS_ITEM_SK''],
      to_table = ''ITEM'', to_columns = [''I_ITEM_SK'']\<rparr>,
     \<lparr>rel_name = ''SALETOSTORE'', from_table = ''STORESALES'', from_columns = [''SS_STORE_SK''],
      to_table = ''STORE'', to_columns = [''S_STORE_SK'']\<rparr>]"

definition view_facts :: "attribute list" where
  "view_facts =
    [\<lparr>table_alias = ''ITEM'', attr_name = ''COST'', expression = Column ''I_WHOLESALE_COST'',
      attr_synonyms = [''price'', ''bulk_cost'', ''item_cost''],
      attr_comment = STR ''The wholesale cost of an item, representing the price at which the item is purchased from the supplier.''\<rparr>,
     \<lparr>table_alias = ''ITEM'', attr_name = ''PRICE'', expression = Column ''i_current_price'',
      attr_synonyms = [''current_cost'', ''current_value'', ''item_price''],
      attr_comment = STR ''The current price of an item.''\<rparr>,
     \<lparr>table_alias = ''STORE'', attr_name = ''TAX_RATE'', expression = Column ''S_TAX_PRECENTAGE'',
      attr_synonyms = [''tax_rate'', ''tax_percent'', ''vat_rate''],
      attr_comment = STR ''The percentage of sales tax applied to transactions at each store location.''\<rparr>,
     \<lparr>table_alias = ''STORESALES'', attr_name = ''SALES_QUANTITY'', expression = Column ''SS_QUANTITY'',
      attr_synonyms = [''item_count'', ''quantity_sold'', ''product_quantity''],
      attr_comment = STR ''The quantity of items sold in a single transaction at the store.''\<rparr>]"

definition view_dimensions :: "attribute list" where
  "view_dimensions =
    [\<lparr>table_alias = ''CUSTOMER'', attr_name = ''BIRTHYEAR'', expression = Column ''C_BIRTH_YEAR'',
      attr_synonyms = [''birth_year'', ''year_of_birth''],
      attr_comment = STR ''The year in which the customer was born''\<rparr>,
     \<lparr>table_alias = ''CUSTOMER'', attr_name = ''COUNTRY'', expression = Column ''C_BIRTH_COUNTRY'',
      attr_synonyms = [''nationality'', ''native_country''],
      attr_comment = STR ''The country where the customer was born''\<rparr>,
     \<lparr>table_alias = ''CUSTOMER'', attr_name = ''C_CUSTOMER_SK'', expression = Column ''c_customer_sk'',
      attr_synonyms = [''customer_id'', ''customer_key'', ''customer_number''],
      attr_comment = STR ''Unique identifier for a customer in the customer dimension''\<rparr>,
     \<lparr>table_alias = ''DATE'', attr_name = ''DATE'', expression = Column ''D_DATE'',
      attr_synonyms = [''calendar_date'', ''date_value''],
      attr_comment = STR ''Date dimension representing individual dates, allowing for analysis and filtering by specific days.''\<rparr>,
     \<lparr>table_alias = ''DATE'', attr_name = ''D_DATE_SK'', expression = Column ''d_date_sk'',
      attr_synonyms = [''date_key'', ''date_surrogate_key'', ''date_id''],
      attr_comment = STR ''Unique identifier for a specific date in the date dimension, used to join with fact tables.''\<rparr>,
     \<lparr>table_alias = ''DATE'', attr_name = ''MONTH'', expression = Column ''D_MOY'',
      attr_synonyms = [''month_of_year'', ''month_number'', ''month_value'', ''month''],
      attr_comment = STR ''Month of the year, represented as a numerical value (1-12), where 1 corresponds to January and 12 corresponds to December.''\<rparr>,
     \<lparr>table_alias = ''DATE'', attr_name = ''WEEK'', expression = Column ''D_WEEK_SEQ'',
      attr_synonyms = [''week_sequence'', ''week_number''],
      attr_comment = STR ''A sequential identifier for the week within a given year, starting from 1 for the first week and incrementing by 1 for each subsequent week.''\<rparr>,
     \<lparr>table_alias = ''DATE'', attr_name = ''YEAR'', expression = Column ''D_YEAR'',
      attr_synonyms = [''calendar_year'', ''year_number''],
      attr_comment = STR ''The year in which a date falls, represented as a four-digit integer.''\<rparr>,
     \<lparr>table_alias = ''DEMO'', attr_name = ''CD_DEMO_SK'', expression = Column ''cd_demo_sk'',
      attr_synonyms = [''demographic_key'', ''demographic_id''],
      attr_comment = STR ''Unique identifer for the customer demographic_record''\<rparr>,
     \<lparr>table_alias = ''DEMO'', attr_name = ''CREDIT_RATING'', expression = Column ''CD_CREDIT_RATING'',
      attr_synonyms = [''credit_score'', ''credit_rank'', ''credit_status''],
      attr_comment = STR ''A categorical dimension indicating the creditworthiness of a customer, with values representing a good credit rating, low risk of default, or high risk of default.''\<rparr>,
     \<lparr>table_alias = ''DEMO'', attr_name = ''MARITAL_STATUS'', expression = Column ''CD_MARITAL_STATUS'',
      attr_synonyms = [''relationship_status'', ''marriage_status''],
      attr_comment = STR ''The marital status of the customer, with possible values being Married (M), Single (S), or Divorced (D)''\<rparr>,
     \<lparr>table_alias = ''ITEM'', attr_name = ''BRAND'', expression = Column ''I_BRAND'',
      attr_synonyms = [''brand_name'', ''item_brand'', ''product_brand''],
      attr_comment = STR ''The brand or manufacturer of the item.''\<rparr>,
     \<lparr>table_alias = ''ITEM'', attr_name = ''CATEGORY'', expression = Column ''I_CATEGORY'',
      attr_synonyms = [''product_category'', ''category_name'', ''product_group''],
      attr_comment = STR ''Category of the item, which can be Sports, Men, or Music, indicating the type of product or merchandise.''\<rparr>,
     \<lparr>table_alias = ''ITEM'', attr_name = ''CLASS'', expression = Column ''I_CLASS'',
      attr_synonyms = [''item_class'', ''product_category'', ''item_type''],
      attr_comment = STR ''The type of item being sold, such as a baseball-themed item, a classical-style item, or a womens watch.''\<rparr>,
     \<lparr>table_alias = ''ITEM'', attr_name = ''I_ITEM_SK'', expression = Column ''i_item_sk'',
      attr_synonyms = [''item_identifier''],
      attr_comment = STR ''Unique identifier for an item in the inventory.''\<rparr>,
     \<lparr>table_alias = ''STORE'', attr_name = ''MARKET'', expression = Column ''S_MARKET_ID'',
      attr_synonyms = [''market_identifier'', ''market_code''],
      attr_comment = STR ''Unique identifier for a specific store market.''\<rparr>,
     \<lparr>table_alias = ''STORE'', attr_name = ''SQUAREFOOTAGE'', expression = Column ''S_FLOOR_SPACE'',
      attr_synonyms = [''square_footage'', ''floor_area'', ''retail_space''],
      attr_comment = STR ''The total square footage of floor space in the store.''\<rparr>,
     \<lparr>table_alias = ''STORE'', attr_name = ''STATE'', expression = Column ''S_STATE'',
      attr_synonyms = [''state_code'', ''location''],
      attr_comment = STR ''State where the store is located.''\<rparr>,
     \<lparr>table_alias = ''STORE'', attr_name = ''STORECOUNTRY'', expression = Column ''S_COUNTRY'',
      attr_synonyms = [''nation'', ''land'', ''territory'', ''state'', ''region''],
      attr_comment = STR ''The country where the store is physically located.''\<rparr>,
     \<lparr>table_alias = ''STORE'', attr_name = ''S_STORE_SK'', expression = Column ''s_store_sk'',
      attr_synonyms = [''store_key'', ''store_id'', ''store_number'', ''store_identifier''],
      attr_comment = STR ''Unique identifier for a store.''\<rparr>,
     \<lparr>table_alias = ''STORESALES'', attr_name = ''SS_CDEMO_SK'', expression = Column ''ss_cdemo_sk'',
      attr_synonyms = [''customer_demo_identifier'', ''demographic_identifier''],
      attr_comment = STR ''Customer demographic key.''\<rparr>,
     \<lparr>table_alias = ''STORESALES'', attr_name = ''SS_CUSTOMER_SK'', expression = Column ''ss_customer_sk'',
      attr_synonyms = [''customer_id'', ''customer_identifier''],
      attr_comment = STR ''Unique identifier for the customer who made the sale.''\<rparr>,
     \<lparr>table_alias = ''STORESALES'', attr_name = ''SS_ITEM_SK'', expression = Column ''ss_item_sk'',
      attr_synonyms = [''item_id'', ''item_number''],
      attr_comment = STR ''Unique identifier for the item sold.''\<rparr>,
     \<lparr>table_alias = ''STORESALES'', attr_name = ''SS_SOLD_DATE_SK'', expression = Column ''ss_sold_date_sk'',
      attr_synonyms = [''sale_date'', ''transaction_date''],
      attr_comment = STR ''Date key for the date the sale was made, in the format of a unique integer value representing the date in the format YYYYMMDD.''\<rparr>,
     \<lparr>table_alias = ''STORESALES'', attr_name = ''SS_STORE_SK'', expression = Column ''ss_store_sk'',
      attr_synonyms = [''store_key'', ''store_id'', ''store_number''],
      attr_comment = STR ''Unique identifier for the store where the sales transaction occurred.''\<rparr>]"

definition view_metrics :: "attribute list" where
  "view_metrics =
    [\<lparr>table_alias = ''STORESALES'', attr_name = ''TOTALCOST'', expression = AGG_SUM (Qualified ''item'' ''cost''),
      attr_synonyms = [''total_cost''],
      attr_comment = STR ''The total cost of an item, representing the price at which the item is purchased from the supplier.''\<rparr>,
     \<lparr>table_alias = ''STORESALES'', attr_name = ''TOTALSALESPRICE'', expression = AGG_SUM (Column ''SS_SALES_PRICE''),
      attr_synonyms = [''price''],
      attr_comment = STR ''The total amount of money earned from sales of all items in a store.''\<rparr>,
     \<lparr>table_alias = ''STORESALES'', attr_name = ''TOTALSALESQUANTITY'', expression = AGG_SUM (Column ''SS_QUANTITY''),
      attr_synonyms = [''total sales quantity'', ''total sales amount''],
      attr_comment = STR ''The total quantity of items sold in a single transaction.''\<rparr>]"

definition TPCDS_SEMANTIC_VIEW_SM :: semantic_view where
  "TPCDS_SEMANTIC_VIEW_SM =
     \<lparr>view_name = ''TPCDS_SEMANTIC_VIEW_SM'', tables = view_tables,
      relationships = view_relationships, facts = view_facts,
      dimensions = view_dimensions, metrics = view_metrics\<rparr>"

subsection \<open>Name resolution\<close>

definition attributes :: "semantic_view \<Rightarrow> attribute list" where
  "attributes v = facts v @ dimensions v @ metrics v"

definition qualified_name :: "attribute \<Rightarrow> string \<times> string" where
  "qualified_name a = (ident (table_alias a), ident (attr_name a))"

text \<open>The declared tables whose alias qualifies the attribute.\<close>

definition qualifying_tables :: "semantic_view \<Rightarrow> attribute \<Rightarrow> logical_table list" where
  "qualifying_tables v a = filter (\<lambda>t. ident (alias_name t) = ident (table_alias a)) (tables v)"

text \<open>
  The names an expression refers to, each with its qualifier if it has one.
\<close>

fun references :: "expr \<Rightarrow> (string option \<times> string) list" where
  "references (Column c) = [(None, ident c)]"
| "references (Qualified q n) = [(Some (ident q), ident n)]"
| "references (AGG_SUM e) = references e"

text \<open>
  A reference is to a column of the attribute's own table when it is unqualified, or
  qualified by that table's alias.
\<close>

definition own_reference :: "attribute \<Rightarrow> string option \<times> string \<Rightarrow> bool" where
  "own_reference a ref =
     (case fst ref of None \<Rightarrow> True | Some q \<Rightarrow> q = ident (table_alias a))"

definition one_own_column :: "attribute \<Rightarrow> bool" where
  "one_own_column a =
     (length (references (expression a)) = 1 \<and> list_all (own_reference a) (references (expression a)))"

text \<open>
  The underlying columns behind an attribute, as (table alias, column): an unqualified
  name is a column of the attribute's own table; a qualified name \<^verbatim>\<open>t.n\<close> is the fact or
  dimension \<open>n\<close> declared for table \<open>t\<close>, and stands for the columns of that
  declaration.
\<close>

fun own_columns :: "string \<Rightarrow> expr \<Rightarrow> (string \<times> string) list" where
  "own_columns t (Column c) = [(ident t, ident c)]"
| "own_columns t (Qualified q n) = []"
| "own_columns t (AGG_SUM e) = own_columns t e"

fun underlying_columns :: "semantic_view \<Rightarrow> string \<Rightarrow> expr \<Rightarrow> (string \<times> string) list" where
  "underlying_columns v t (Column c) = [(ident t, ident c)]"
| "underlying_columns v t (Qualified q n) =
     concat (map (\<lambda>a. own_columns (table_alias a) (expression a))
       (filter (\<lambda>a. qualified_name a = (ident q, ident n)) (facts v @ dimensions v)))"
| "underlying_columns v t (AGG_SUM e) = underlying_columns v t e"

definition resolves :: "semantic_view \<Rightarrow> attribute \<Rightarrow> (string \<times> string) list" where
  "resolves v a = underlying_columns v (table_alias a) (expression a)"

subsection \<open>Relationships\<close>

definition find_table :: "semantic_view \<Rightarrow> string \<Rightarrow> logical_table option" where
  "find_table v a = find (\<lambda>t. ident (alias_name t) = ident a) (tables v)"

text \<open>
  A column list is a declared key of a table when it contains the table's primary key
  (the only kind of key the declaration has).
\<close>

definition declared_key :: "semantic_view \<Rightarrow> string \<Rightarrow> string list \<Rightarrow> bool" where
  "declared_key v a cols =
     (case find_table v a of
        None \<Rightarrow> False
      | Some t \<Rightarrow> primary_key t \<noteq> [] \<and> set (map ident (primary_key t)) \<subseteq> set (map ident cols))"

text \<open>
  A relationship is a foreign-key-style link when both tables are declared, the column
  lists have the same length and the referenced columns are the primary key of the
  referenced table. Such a link is one-to-one when the referencing columns are themselves a
  declared key of the referencing table, and many-to-one otherwise: this is how the
  warehouse classifies a relationship from the declared keys.
\<close>

definition foreign_key_link :: "semantic_view \<Rightarrow> relationship \<Rightarrow> bool" where
  "foreign_key_link v r =
     (find_table v (from_table r) \<noteq> None \<and>
      length (from_columns r) = length (to_columns r) \<and>
      (case find_table v (to_table r) of
         None \<Rightarrow> False
       | Some t \<Rightarrow> map ident (to_columns r) = map ident (primary_key t)))"

datatype cardinality = Many_to_one | One_to_one | Not_a_link

definition link_cardinality :: "semantic_view \<Rightarrow> relationship \<Rightarrow> cardinality" where
  "link_cardinality v r =
     (if \<not> foreign_key_link v r then Not_a_link
      else if declared_key v (from_table r) (from_columns r) then One_to_one
      else Many_to_one)"

text \<open>A surrogate key column is named with the suffix \<^verbatim>\<open>_SK\<close>.\<close>

definition surrogate_key :: "string \<Rightarrow> bool" where
  "surrogate_key c = (3 < length c \<and> drop (length c - 3) (ident c) = ''_SK'')"

text \<open>The directed graph of table references: an edge for every relationship.\<close>

definition table_references :: "semantic_view \<Rightarrow> (string \<times> string) list" where
  "table_references v = map (\<lambda>r. (ident (from_table r), ident (to_table r))) (relationships v)"

text \<open>
  A join path is a list of table aliases in which every table is joined to the next by a
  declared foreign-key-style link.
\<close>

definition joined :: "semantic_view \<Rightarrow> string \<Rightarrow> string \<Rightarrow> bool" where
  "joined v a b =
     list_ex (\<lambda>r. foreign_key_link v r \<and> ident (from_table r) = ident a \<and> ident (to_table r) = ident b)
       (relationships v)"

fun join_path :: "semantic_view \<Rightarrow> string list \<Rightarrow> bool" where
  "join_path v [] = False"
| "join_path v [a] = (find_table v a \<noteq> None)"
| "join_path v (a # b # p) = (joined v a b \<and> join_path v (b # p))"

text \<open>The dimension tables: every declared table but the sales fact table.\<close>

definition dimension_tables :: "semantic_view \<Rightarrow> string list" where
  "dimension_tables v = filter (\<lambda>a. a \<noteq> ''STORESALES'') (map (ident \<circ> alias_name) (tables v))"

section \<open>The SQL statements of the notebook\<close>

text \<open>
  The statements of the SQL cells, by their form. \<^verbatim>\<open>sql_step6\<close> chains two statements with
  the flow operator \<^verbatim>\<open>->>\<close>: the second reads the result of the first as \<^verbatim>\<open>$1\<close>.
\<close>

datatype string_expr =
    Literal string
  | CURRENT_ORGANIZATION_NAME
  | CURRENT_ACCOUNT_NAME
  | Concat string_expr string_expr

record semantic_view_query =
  queried_view :: string
  query_dimensions :: "(string \<times> string) list"
  query_metrics :: "(string \<times> string) list"
  query_where :: "((string \<times> string) \<times> string) list"
  order_by_desc :: string
  row_limit :: "nat option"

datatype sql_stmt =
    USE_DATABASE string
  | USE_SCHEMA string
  | USE_ROLE string
  | SHOW_VIEWS
  | CREATE_OR_REPLACE_SEMANTIC_VIEW semantic_view
  | SHOW_SEMANTIC_VIEWS
  | DESC_SEMANTIC_VIEW string
  | SELECT_FROM_RESULT "(string \<times> string) list" "(string \<times> string list) list"
  | SELECT_EXPR string_expr string
  | SELECT_FROM_SEMANTIC_VIEW semantic_view_query
  | FLOW sql_stmt sql_stmt

definition sql_step3 :: "sql_stmt list" where
  "sql_step3 =
     [USE_DATABASE ''<mdt3_default_database##>'', USE_SCHEMA ''default_schema'', SHOW_VIEWS]"

definition sql_step4 :: "sql_stmt list" where
  "sql_step4 = [USE_ROLE ''accountadmin'', CREATE_OR_REPLACE_SEMANTIC_VIEW TPCDS_SEMANTIC_VIEW_SM]"

definition sql_step5 :: "sql_stmt list" where
  "sql_step5 = [SHOW_SEMANTIC_VIEWS]"

definition sql_step6 :: "sql_stmt list" where
  "sql_step6 =
     [FLOW (DESC_SEMANTIC_VIEW ''TPCDS_SEMANTIC_VIEW_SM'')
        (SELECT_FROM_RESULT
           [(''object_kind'', ''object_kind''), (''property_value'', ''parent_object''),
            (''object_name'', ''object_name'')]
           [(''object_kind'', [''METRIC'', ''DIMENSION'']), (''property'', [''TABLE''])])]"

definition sql_step7 :: "sql_stmt list" where
  "sql_step7 =
     [SELECT_EXPR
        (Concat (Concat (Concat (Concat (Literal ''https://app.snowflake.com/'')
           CURRENT_ORGANIZATION_NAME) (Literal ''/'')) CURRENT_ACCOUNT_NAME)
           (Literal ''/#/studio/analyst/databases/<MDT3_DEFAULT_DATABASE##>/schemas/DEFAULT_SCHEMA/semanticView/TPCDS_SEMANTIC_VIEW_SM/edit''))
        ''RESULT'']"

definition sql_step8 :: "sql_stmt list" where
  "sql_step8 =
     [SELECT_FROM_SEMANTIC_VIEW
        \<lparr>queried_view = ''TPCDS_SEMANTIC_VIEW_SM'',
         query_dimensions =
           [(''Item'', ''Brand''), (''Item'', ''Category''), (''Date'', ''Year''),
            (''Date'', ''Month''), (''Store'', ''State'')],
         query_metrics = [(''StoreSales'', ''TotalSalesQuantity'')],
         query_where =
           [((''Date'', ''Year''), ''2002''), ((''Date'', ''Month''), ''12''),
            ((''Store'', ''State''), ''TX''), ((''Item'', ''Category''), ''Books'')],
         order_by_desc = ''TotalSalesQuantity'',
         row_limit = Some 10\<rparr>]"

definition cell1 :: "sql_stmt list" where
  "cell1 =
     [SELECT_FROM_SEMANTIC_VIEW
        \<lparr>queried_view = ''TPCDS_SEMANTIC_VIEW_SM'',
         query_dimensions =
           [(''Item'', ''Brand''), (''Item'', ''Category''), (''Date'', ''Year''),
            (''Date'', ''Month''), (''Store'', ''State'')],
         query_metrics = [(''StoreSales'', ''TotalSalesQuantity'')],
         query_where =
           [((''Date'', ''Year''), ''2002''), ((''Date'', ''Month''), ''12''),
            ((''Item'', ''Category''), ''Books'')],
         order_by_desc = ''TotalSalesQuantity'',
         row_limit = None\<rparr>]"

text \<open>
  The SQL cells in notebook order. The Python cells contain no SQL text: they read the
  results of \<^verbatim>\<open>sql_step7\<close> and \<^verbatim>\<open>cell1\<close>.
\<close>

definition sql_cells :: "sql_stmt list list" where
  "sql_cells = [sql_step3, sql_step4, sql_step5, sql_step6, sql_step7, sql_step8, cell1]"

text \<open>The statements executed, one by one: a chain executes its parts in order.\<close>

fun executed :: "sql_stmt \<Rightarrow> sql_stmt list" where
  "executed (FLOW a b) = executed a @ executed b"
| "executed (USE_DATABASE d) = [USE_DATABASE d]"
| "executed (USE_SCHEMA s) = [USE_SCHEMA s]"
| "executed (USE_ROLE r) = [USE_ROLE r]"
| "executed SHOW_VIEWS = [SHOW_VIEWS]"
| "executed (CREATE_OR_REPLACE_SEMANTIC_VIEW v) = [CREATE_OR_REPLACE_SEMANTIC_VIEW v]"
| "executed SHOW_SEMANTIC_VIEWS = [SHOW_SEMANTIC_VIEWS]"
| "executed (DESC_SEMANTIC_VIEW n) = [DESC_SEMANTIC_VIEW n]"
| "executed (SELECT_FROM_RESULT cols conds) = [SELECT_FROM_RESULT cols conds]"
| "executed (SELECT_EXPR e a) = [SELECT_EXPR e a]"
| "executed (SELECT_FROM_SEMANTIC_VIEW q) = [SELECT_FROM_SEMANTIC_VIEW q]"

definition notebook_statements :: "sql_stmt list" where
  "notebook_statements = concat (map executed (concat sql_cells))"

subsection \<open>The consumed SQL surface\<close>

text \<open>
  The forms that the specification lists as the SQL surface: USE DATABASE/SCHEMA, SHOW
  VIEWS, CREATE OR REPLACE SEMANTIC VIEW, SHOW SEMANTIC VIEWS, DESC SEMANTIC VIEW, and
  SELECT ... FROM SEMANTIC_VIEW(... DIMENSIONS ... METRICS ... WHERE ...).
\<close>

fun listed_form :: "sql_stmt \<Rightarrow> bool" where
  "listed_form (USE_DATABASE d) = True"
| "listed_form (USE_SCHEMA s) = True"
| "listed_form SHOW_VIEWS = True"
| "listed_form (CREATE_OR_REPLACE_SEMANTIC_VIEW v) = True"
| "listed_form SHOW_SEMANTIC_VIEWS = True"
| "listed_form (DESC_SEMANTIC_VIEW n) = True"
| "listed_form (SELECT_FROM_SEMANTIC_VIEW q) = True"
| "listed_form (USE_ROLE r) = False"
| "listed_form (SELECT_FROM_RESULT cols conds) = False"
| "listed_form (SELECT_EXPR e a) = False"
| "listed_form (FLOW a b) = False"

text \<open>The three further forms that the notebook executes.\<close>

fun further_form :: "sql_stmt \<Rightarrow> bool" where
  "further_form (USE_ROLE r) = True"
| "further_form (SELECT_FROM_RESULT cols conds) = True"
| "further_form (SELECT_EXPR e a) = True"
| "further_form s = False"

subsection \<open>The effect of a statement on the warehouse\<close>

text \<open>
  What the notebook can observe of the warehouse: the session's current role, database
  and schema, and the semantic views of the catalog by (database, schema, name). USE
  statements change the session (USE DATABASE also makes PUBLIC the current schema);
  CREATE OR REPLACE SEMANTIC VIEW binds the view's name in the current schema; SHOW, DESC
  and SELECT statements return rows and change nothing.
\<close>

record warehouse =
  current_role :: "string option"
  current_database :: "string option"
  current_schema :: "string option"
  catalog :: "string option \<times> string option \<times> string \<Rightarrow> semantic_view option"

fun exec :: "sql_stmt \<Rightarrow> warehouse \<Rightarrow> warehouse" where
  "exec (USE_DATABASE d) w = w\<lparr>current_database := Some (ident d), current_schema := Some ''PUBLIC''\<rparr>"
| "exec (USE_SCHEMA s) w = w\<lparr>current_schema := Some (ident s)\<rparr>"
| "exec (USE_ROLE r) w = w\<lparr>current_role := Some (ident r)\<rparr>"
| "exec (CREATE_OR_REPLACE_SEMANTIC_VIEW v) w =
     w\<lparr>catalog := (catalog w)((current_database w, current_schema w, ident (view_name v)) \<mapsto> v)\<rparr>"
| "exec (FLOW a b) w = exec b (exec a w)"
| "exec SHOW_VIEWS w = w"
| "exec SHOW_SEMANTIC_VIEWS w = w"
| "exec (DESC_SEMANTIC_VIEW n) w = w"
| "exec (SELECT_FROM_RESULT cols conds) w = w"
| "exec (SELECT_EXPR e a) w = w"
| "exec (SELECT_FROM_SEMANTIC_VIEW q) w = w"

definition run :: "sql_stmt list \<Rightarrow> warehouse \<Rightarrow> warehouse" where
  "run stmts w = fold exec stmts w"

fun is_create :: "sql_stmt \<Rightarrow> bool" where
  "is_create (CREATE_OR_REPLACE_SEMANTIC_VIEW v) = True"
| "is_create s = False"

text \<open>The statements before the creation, and those after it.\<close>

definition before_creation :: "sql_stmt list" where
  "before_creation = takeWhile (\<lambda>s. \<not> is_create s) notebook_statements"

definition after_creation :: "sql_stmt list" where
  "after_creation = tl (dropWhile (\<lambda>s. \<not> is_create s) notebook_statements)"

text \<open>A statement refers to the view when it names it, or lists the semantic views.\<close>

fun refers_to :: "string \<Rightarrow> sql_stmt \<Rightarrow> bool" where
  "refers_to n SHOW_SEMANTIC_VIEWS = True"
| "refers_to n (DESC_SEMANTIC_VIEW m) = (ident m = ident n)"
| "refers_to n (SELECT_FROM_SEMANTIC_VIEW q) = (ident (queried_view q) = ident n)"
| "refers_to n (CREATE_OR_REPLACE_SEMANTIC_VIEW v) = (ident (view_name v) = ident n)"
| "refers_to n (FLOW a b) = (refers_to n a \<or> refers_to n b)"
| "refers_to n s = False"

fun changes_catalog :: "sql_stmt \<Rightarrow> bool" where
  "changes_catalog (CREATE_OR_REPLACE_SEMANTIC_VIEW v) = True"
| "changes_catalog (FLOW a b) = (changes_catalog a \<or> changes_catalog b)"
| "changes_catalog s = False"

section \<open>Reference aggregation and sample inputs\<close>

text \<open>
  The group-by/sum as the specification words it: one row per distinct present value of
  the grouping column, in sorted order, carrying the sum of the quantities of the rows
  with that value. The sum is the mathematical sum of the present quantities, taken into
  the column's number format: modulo \<open>2 ^ 64\<close> for an int64 column; for a float64 column
  exactly, as long as the absolute values add up to at most \<open>2 ^ 53\<close>. It is stated
  independently of \<open>groupby_sum\<close> and compared with it below.
\<close>

definition present :: "int64 option list \<Rightarrow> int list" where
  "present col = map sint [v. Some v \<leftarrow> col]"

definition library_sum :: "bool \<Rightarrow> int list \<Rightarrow> number" where
  "library_sum float64 qs =
     (if float64
      then (if sum_list (map abs qs) \<le> 2 ^ 53 then Float64 (of_int (sum_list qs)) else Undetermined)
      else Int64 (of_int (sum_list qs)))"

definition distinct_values :: "(row \<Rightarrow> string option) \<Rightarrow> dataframe \<Rightarrow> string list" where
  "distinct_values key df = sorted_list_of_set (set [k. Some k \<leftarrow> map key df])"

definition cells_of :: "(row \<Rightarrow> string option) \<Rightarrow> dataframe \<Rightarrow> string \<Rightarrow> int64 option list" where
  "cells_of key df k = map TOTALSALESQUANTITY (filter (\<lambda>r. key r = Some k) df)"

definition sum_per_value :: "(row \<Rightarrow> string option) \<Rightarrow> dataframe \<Rightarrow> series" where
  "sum_per_value key df =
     map (\<lambda>k. (k, library_sum (has_missing (map TOTALSALESQUANTITY df)) (present (cells_of key df k))))
       (distinct_values key df)"

text \<open>
  The column that a selection groups by; the present quantities of a dataframe, as
  integers; and the mean of a list of integers as the specification words it.
\<close>

fun selected_column :: "selection \<Rightarrow> row \<Rightarrow> string option" where
  "selected_column Select_BRAND = BRAND"
| "selected_column Select_STATE = STATE"

definition quantities :: "dataframe \<Rightarrow> int list" where
  "quantities df = present (map TOTALSALESQUANTITY df)"

definition float64_column :: "dataframe \<Rightarrow> bool" where
  "float64_column df = has_missing (map TOTALSALESQUANTITY df)"

text \<open>
  The arithmetic mean of the present quantities, as a float64: the sum divided by the
  number, determined while the absolute values add up to at most \<open>2 ^ 53\<close>; NaN when
  there is none.
\<close>

definition mean_of :: "int list \<Rightarrow> number" where
  "mean_of qs =
     (if qs = [] then Not_finite
      else if sum_list (map abs qs) \<le> 2 ^ 53
      then Float64 (of_int (sum_list qs) / of_nat (length qs))
      else Undetermined)"


text \<open>The cells that the bins of a key hold (used to follow the grouping pass).\<close>

definition bin_cells :: "bins \<Rightarrow> string \<Rightarrow> int64 option list" where
  "bin_cells bins k = concat (map snd (filter (\<lambda>p. fst p = k) bins))"

text \<open>
  Sample rows of the shape that \<^verbatim>\<open>cell1\<close> returns (category Books, December 2002), sample
  widget states, and the variable bindings before any app has run.
\<close>

definition mk_row :: "string option \<Rightarrow> string option \<Rightarrow> int64 option \<Rightarrow> row" where
  "mk_row b s q =
     \<lparr>BRAND = b, CATEGORY = Some ''Books'', YEAR = Some 2002, MONTH = Some 12, STATE = s,
      TOTALSALESQUANTITY = q\<rparr>"

definition vars0 :: "dataframe \<Rightarrow> notebook_vars" where
  "vars0 df =
     \<lparr>v_df = df, v_group_by = Unbound, v_grouped_data = Unbound, v_chart_title = Unbound,
      v_total_sales = Unbound, v_avg_sales = Unbound, v_top_performer = Unbound,
      v_top_performer_name = Unbound\<rparr>"

definition df_one :: dataframe where
  "df_one = [mk_row (Some ''amalgamalg #1'') (Some ''TX'') (Some 10)]"

definition df_two :: dataframe where
  "df_two = [mk_row (Some ''amalgamalg #1'') (Some ''TX'') (Some 5),
             mk_row (Some ''amalgamalg #1'') (Some ''TX'') (Some 5)]"

definition df_three :: dataframe where
  "df_three = [mk_row (Some ''edu packscholar #2'') (Some ''TX'') (Some 3),
               mk_row (Some ''amalgamalg #1'') (Some ''TX'') (Some 4),
               mk_row (Some ''edu packscholar #2'') (Some ''CA'') (Some 5)]"

text \<open>Two rows of one brand in two states, each with the quantity \<open>2 ^ 62\<close>.\<close>

definition df_large :: dataframe where
  "df_large = [mk_row (Some ''amalgamalg #1'') (Some ''TX'') (Some (2 ^ 62)),
               mk_row (Some ''amalgamalg #1'') (Some ''CA'') (Some (2 ^ 62))]"


text \<open>Two rows, one of them with a missing brand.\<close>

definition df_missing_brand :: dataframe where
  "df_missing_brand = [mk_row (Some ''amalgamalg #1'') (Some ''TX'') (Some 3),
                       mk_row None (Some ''TX'') (Some 4)]"

definition by_brand :: widgets where
  "by_brand = \<lparr>selected = Select_BRAND, show_data_table = True\<rparr>"

definition by_state :: widgets where
  "by_state = \<lparr>selected = Select_STATE, show_data_table = False\<rparr>"

section \<open>The reductions compute sums, counts and means\<close>

lemma word_sum_list_sint: "(sum_list vs :: int64) = of_int (sum_list (map sint vs))"
  by (induction vs) simp_all

lemma fold_int64_acc:
  "fold (\<lambda>c acc. case c of None \<Rightarrow> acc | Some v \<Rightarrow> acc + v) col (a::int64)
     = a + sum_list [v. Some v \<leftarrow> col]"
  by (induction col arbitrary: a) (auto split: option.splits)

lemma int64_sum_eq: "int64_sum col = of_int (sum_list (present col))"
  by (simp add: int64_sum_def fold_int64_acc present_def word_sum_list_sint)

lemma fold_float64_acc:
  "fold (\<lambda>c (s, a). case c of None \<Rightarrow> (s, a) | Some v \<Rightarrow> (s + sint v, a + \<bar>sint v\<bar>)) col (s0, a0)
     = (s0 + sum_list (present col), a0 + sum_list (map abs (present col)))"
  by (induction col arbitrary: s0 a0) (auto simp: present_def split: option.splits)

lemma float64_acc_eq:
  "float64_acc col = (sum_list (present col), sum_list (map abs (present col)))"
  by (simp add: float64_acc_def fold_float64_acc)

lemma fold_count_acc:
  "fold (\<lambda>c n. case c of None \<Rightarrow> n | Some v \<Rightarrow> Suc n) col a = a + length (present col)"
  by (induction col arbitrary: a) (auto simp: present_def split: option.splits)

lemma series_count_eq: "series_count col = length (present col)"
  by (simp add: series_count_def fold_count_acc)

lemma series_sum_eq: "series_sum float64 col = library_sum float64 (present col)"
  by (simp add: series_sum_def library_sum_def float64_sum_def float64_acc_eq int64_sum_eq
      exact_limit_def)

lemma series_mean_eq:
  "series_mean col =
     (if present col = [] then Not_finite
      else if sum_list (map abs (present col)) \<le> 2 ^ 53
      then Float64 (of_int (sum_list (present col)) / of_nat (length (present col)))
      else Undetermined)"
  by (simp add: series_mean_def float64_acc_eq series_count_eq exact_limit_def)

lemma present_append: "present (xs @ ys) = present xs @ present ys"
  by (simp add: present_def)



text \<open>The int64 sum is the sum modulo \<open>2 ^ 64\<close>, and the sum itself when that is in range.\<close>

lemma sint_of_int_mod: "(2::int) ^ 64 dvd sint (of_int x :: int64) - x"
proof -
  have "sint (of_int x :: int64) = signed_take_bit 63 x"
    by (simp add: signed_of_int)
  then have "take_bit 64 (sint (of_int x :: int64)) = take_bit 64 x"
    by (simp add: take_bit_signed_take_bit)
  then show ?thesis
    by (simp add: take_bit_eq_mod mod_eq_dvd_iff)
qed

lemma sint_of_int_in_range:
  "- (2 ^ 63) \<le> x \<Longrightarrow> x < 2 ^ 63 \<Longrightarrow> sint (of_int x :: int64) = x"
  by (simp add: signed_of_int signed_take_bit_int_eq_self)

lemma abs_sum_list_le: "\<bar>sum_list (qs :: int list)\<bar> \<le> sum_list (map abs qs)"
  by (induction qs) auto

lemma library_sum_int64_exact:
  assumes "sum_list (map abs qs) < 2 ^ 63"
  shows "num_val (library_sum False qs) = Some (of_int (sum_list qs))"
proof -
  from assms abs_sum_list_le[of qs] have "- (2 ^ 63) \<le> sum_list qs" and "sum_list qs < 2 ^ 63"
    by linarith+
  then show ?thesis
    by (simp add: library_sum_def sint_of_int_in_range)
qed

lemma library_sum_float64_exact:
  "sum_list (map abs qs) \<le> 2 ^ 53 \<Longrightarrow> num_val (library_sum True qs) = Some (of_int (sum_list qs))"
  by (simp add: library_sum_def)

section \<open>The grouping pass collects the cells of every present key\<close>

lemma keys_group_add: "fst ` set (group_add k c bins) = insert k (fst ` set bins)"
  by (induction k c bins rule: group_add.induct) auto

lemma distinct_group_add:
  "distinct (map fst bins) \<Longrightarrow> distinct (map fst (group_add k c bins))"
proof (induction k c bins rule: group_add.induct)
  case (1 k c)
  then show ?case by simp
next
  case (2 k c k' cs bins)
  have "fst ` set (group_add k c bins) = insert k (fst ` set bins)"
    by (rule keys_group_add)
  with 2 show ?case by auto
qed

lemma bin_cells_Nil: "bin_cells [] q = []"
  by (simp add: bin_cells_def)

lemma bin_cells_Cons:
  "bin_cells (p # bins) q = (if fst p = q then snd p else []) @ bin_cells bins q"
  by (simp add: bin_cells_def)

lemma bin_cells_absent: "q \<notin> fst ` set bins \<Longrightarrow> bin_cells bins q = []"
  by (induction bins) (auto simp: bin_cells_Nil bin_cells_Cons)

lemma bin_cells_group_add:
  "distinct (map fst bins) \<Longrightarrow>
     bin_cells (group_add k c bins) q = bin_cells bins q @ (if k = q then [c] else [])"
proof (induction k c bins rule: group_add.induct)
  case (1 k c)
  then show ?case by (simp add: bin_cells_Nil bin_cells_Cons)
next
  case (2 k c k' cs bins)
  from 2(2) have notin: "k' \<notin> fst ` set bins" and d: "distinct (map fst bins)"
    by simp_all
  show ?case
  proof (cases "k = k'")
    case True
    from notin have "bin_cells bins k' = []"
      by (rule bin_cells_absent)
    with True show ?thesis by (auto simp: bin_cells_Cons)
  next
    case False
    from 2(1)[OF False d] False show ?thesis by (simp add: bin_cells_Cons)
  qed
qed

lemma group_step_None: "key r = None \<Longrightarrow> group_step key r bins = bins"
  by (simp add: group_step_def)

lemma group_step_Some:
  "key r = Some k \<Longrightarrow> group_step key r bins = group_add k (TOTALSALESQUANTITY r) bins"
  by (simp add: group_step_def)

lemma keys_fold_group_step:
  "set (map fst (fold (group_step key) df bins))
     = set (map fst bins) \<union> {k. Some k \<in> set (map key df)}"
proof (induction df arbitrary: bins)
  case Nil
  then show ?case by simp
next
  case (Cons r df)
  show ?case
  proof (cases "key r")
    case None
    have "set (map fst (fold (group_step key) (r # df) bins))
            = set (map fst bins) \<union> {k. Some k \<in> set (map key df)}"
      using Cons[of bins] None by (simp add: group_step_None)
    also have "\<dots> = set (map fst bins) \<union> {k. Some k \<in> set (map key (r # df))}"
      using None by auto
    finally show ?thesis .
  next
    case (Some k)
    have "set (map fst (fold (group_step key) (r # df) bins))
            = insert k (set (map fst bins)) \<union> {k. Some k \<in> set (map key df)}"
      using Cons[of "group_add k (TOTALSALESQUANTITY r) bins"] Some
      by (simp add: group_step_Some keys_group_add)
    also have "\<dots> = set (map fst bins) \<union> {k. Some k \<in> set (map key (r # df))}"
      using Some by auto
    finally show ?thesis .
  qed
qed

lemma distinct_fold_group_step:
  "distinct (map fst bins) \<Longrightarrow> distinct (map fst (fold (group_step key) df bins))"
proof (induction df arbitrary: bins)
  case Nil
  then show ?case by simp
next
  case (Cons r df)
  then show ?case
    by (cases "key r") (simp_all add: group_step_None group_step_Some distinct_group_add)
qed

lemma bin_cells_fold_group_step:
  "distinct (map fst bins) \<Longrightarrow>
     bin_cells (fold (group_step key) df bins) k = bin_cells bins k @ cells_of key df k"
proof (induction df arbitrary: bins)
  case Nil
  then show ?case by (simp add: cells_of_def)
next
  case (Cons r df)
  show ?case
  proof (cases "key r")
    case None
    with Cons show ?thesis by (simp add: group_step_None cells_of_def)
  next
    case (Some k')
    from Cons.prems have "distinct (map fst (group_add k' (TOTALSALESQUANTITY r) bins))"
      by (rule distinct_group_add)
    from Cons.IH[OF this] Some Cons.prems show ?thesis
      by (simp add: group_step_Some bin_cells_group_add cells_of_def)
  qed
qed

lemma bin_cells_distinct:
  "distinct (map fst bins) \<Longrightarrow> (k, cs) \<in> set bins \<Longrightarrow> bin_cells bins k = cs"
proof (induction bins)
  case Nil
  then show ?case by simp
next
  case (Cons p bins)
  show ?case
  proof (cases "fst p = k")
    case True
    from Cons.prems(1) True have notin: "k \<notin> fst ` set bins"
      by simp
    have "(k, cs) \<notin> set bins"
    proof
      assume "(k, cs) \<in> set bins"
      then have "fst (k, cs) \<in> fst ` set bins" by (rule imageI)
      with notin show False by simp
    qed
    with Cons.prems(2) have p: "p = (k, cs)" by simp
    from notin have "filter (\<lambda>q. fst q = k) bins = []"
      by (auto simp: filter_empty_conv)
    with p show ?thesis by (simp add: bin_cells_def)
  next
    case False
    with Cons.prems have "(k, cs) \<in> set bins" and "distinct (map fst bins)"
      by auto
    with Cons.IH have "bin_cells bins k = cs" by simp
    with False show ?thesis by (simp add: bin_cells_def)
  qed
qed

text \<open>Sorting by key keeps the keys distinct.\<close>

lemma distinct_map_insort_key:
  "distinct (map f (insort_key f x xs)) = (f x \<notin> f ` set xs \<and> distinct (map f xs))"
  by (induction xs) (auto simp: set_insort_key)

lemma distinct_map_sort_key: "distinct (map f (sort_key f xs)) = distinct (map f xs)"
  by (induction xs) (simp_all add: distinct_map_insort_key)

lemma set_present_keys: "set [k. Some k \<leftarrow> xs] = {k. Some k \<in> set xs}"
  by (induction xs) (auto split: option.splits)

lemma keys_groupby: "map fst (groupby key df) = distinct_values key df"
proof -
  let ?bins = "fold (group_step key) df []"
  have srt: "sorted (map fst (sort_key fst ?bins))"
    by (rule sorted_sort_key)
  have "distinct (map fst ?bins)"
    by (rule distinct_fold_group_step) simp
  then have dst: "distinct (map fst (sort_key fst ?bins))"
    by (simp only: distinct_map_sort_key)
  have "set (map fst (sort_key fst ?bins)) = set (map fst ?bins)"
    by simp
  also have "\<dots> = set [k. Some k \<leftarrow> map key df]"
    by (simp only: keys_fold_group_step set_present_keys) simp
  finally have "sorted_list_of_set (set [k. Some k \<leftarrow> map key df]) = map fst (sort_key fst ?bins)"
    using srt dst by (metis sorted_list_of_set.idem_if_sorted_distinct)
  then show ?thesis
    by (simp add: groupby_def distinct_values_def)
qed

lemma cells_groupby:
  assumes "(k, cs) \<in> set (groupby key df)"
  shows "cs = cells_of key df k"
proof -
  let ?bins = "fold (group_step key) df []"
  from assms have "(k, cs) \<in> set ?bins"
    by (simp add: groupby_def)
  moreover have d: "distinct (map fst ?bins)"
    by (rule distinct_fold_group_step) simp
  ultimately have "bin_cells ?bins k = cs"
    by (simp add: bin_cells_distinct)
  moreover have "bin_cells ?bins k = bin_cells [] k @ cells_of key df k"
    by (rule bin_cells_fold_group_step) simp
  ultimately show ?thesis
    by (simp add: bin_cells_def)
qed

lemma groupby_eq:
  "groupby key df = map (\<lambda>k. (k, cells_of key df k)) (distinct_values key df)"
proof -
  have "map (\<lambda>p. (fst p, cells_of key df (fst p))) (groupby key df) = groupby key df"
  proof (rule map_idI)
    fix p assume "p \<in> set (groupby key df)"
    then have "(fst p, snd p) \<in> set (groupby key df)" by simp
    then have "snd p = cells_of key df (fst p)" by (rule cells_groupby)
    then show "(fst p, cells_of key df (fst p)) = p" by (simp add: prod_eq_iff)
  qed
  then have "groupby key df = map (\<lambda>k. (k, cells_of key df k)) (map fst (groupby key df))"
    by (simp add: comp_def)
  then show ?thesis
    by (simp only: keys_groupby)
qed

lemma groupby_sum_eq: "groupby_sum key df = sum_per_value key df"
  by (simp add: groupby_sum_def groupby_eq sum_per_value_def series_sum_eq comp_def)

lemma keys_sum_per_value: "map fst (sum_per_value key df) = distinct_values key df"
  by (simp add: sum_per_value_def comp_def)

lemma distinct_distinct_values: "distinct (distinct_values key df)"
  by (simp add: distinct_values_def)

lemma set_distinct_values: "set (distinct_values key df) = {k. Some k \<in> set (map key df)}"
proof -
  have "set (sorted_list_of_set (set xs)) = set xs" for xs :: "string list"
    by simp
  then have "set (distinct_values key df) = set [k. Some k \<leftarrow> map key df]"
    by (simp only: distinct_values_def)
  then show ?thesis
    by (simp only: set_present_keys)
qed


section \<open>Sums over the groups\<close>

lemma sum_list_indicator:
  "distinct ks \<Longrightarrow>
     sum_list (map (\<lambda>k. if a = Some k then x else 0) ks)
       = (if a \<in> Some ` set ks then (x :: 'a :: comm_monoid_add) else 0)"
  by (induction ks) auto

lemma cells_of_Cons:
  "cells_of key (r # df) k
     = (if key r = Some k then [TOTALSALESQUANTITY r] else []) @ cells_of key df k"
  by (simp add: cells_of_def)

lemma partition_sum:
  fixes g :: "int64 option \<Rightarrow> 'a :: comm_monoid_add"
  assumes "distinct ks" and "{k. Some k \<in> set (map key df)} \<subseteq> set ks"
  shows "sum_list (map (\<lambda>k. sum_list (map g (cells_of key df k))) ks)
           = sum_list (map g (map TOTALSALESQUANTITY (filter (\<lambda>r. key r \<noteq> None) df)))"
  using assms(2)
proof (induction df)
  case Nil
  then show ?case by (simp add: cells_of_def)
next
  case (Cons r df)
  then have sub: "{k. Some k \<in> set (map key df)} \<subseteq> set ks"
    by auto
  have "sum_list (map (\<lambda>k. sum_list (map g (cells_of key (r # df) k))) ks)
          = sum_list (map (\<lambda>k. (if key r = Some k then g (TOTALSALESQUANTITY r) else 0)
                                  + sum_list (map g (cells_of key df k))) ks)"
    by (rule arg_cong[where f = sum_list], rule map_cong) (simp_all add: cells_of_Cons)
  also have "\<dots> = sum_list (map (\<lambda>k. if key r = Some k then g (TOTALSALESQUANTITY r) else 0) ks)
                    + sum_list (map (\<lambda>k. sum_list (map g (cells_of key df k))) ks)"
    by (rule sum_list_addf)
  also have "sum_list (map (\<lambda>k. if key r = Some k then g (TOTALSALESQUANTITY r) else 0) ks)
               = (if key r \<in> Some ` set ks then g (TOTALSALESQUANTITY r) else 0)"
    using assms(1) by (rule sum_list_indicator)
  also have "\<dots> = (if key r \<noteq> None then g (TOTALSALESQUANTITY r) else 0)"
  proof (cases "key r")
    case None
    then show ?thesis by auto
  next
    case (Some k)
    with Cons.prems have "k \<in> set ks" by auto
    with Some show ?thesis by auto
  qed
  finally show ?case
    using Cons.IH[OF sub] by simp
qed

lemma sum_present:
  fixes f :: "int \<Rightarrow> int"
  shows "sum_list (map f (present cs))
     = sum_list (map (\<lambda>c. case c of None \<Rightarrow> 0 | Some v \<Rightarrow> f (sint v)) cs)"
  by (induction cs) (auto simp: present_def split: option.splits)

lemma partition_sum_present:
  fixes f :: "int \<Rightarrow> int"
  assumes "list_all (\<lambda>r. key r \<noteq> None) df"
  shows "sum_list (map (\<lambda>k. sum_list (map f (present (cells_of key df k)))) (distinct_values key df))
           = sum_list (map f (quantities df))"
proof -
  let ?g = "\<lambda>c. case c of None \<Rightarrow> 0 | Some v \<Rightarrow> f (sint v)"
  from assms have all: "filter (\<lambda>r. key r \<noteq> None) df = df"
    by (simp add: list_all_iff)
  have "sum_list (map (\<lambda>k. sum_list (map ?g (cells_of key df k))) (distinct_values key df))
          = sum_list (map ?g (map TOTALSALESQUANTITY (filter (\<lambda>r. key r \<noteq> None) df)))"
    by (rule partition_sum) (simp_all add: distinct_distinct_values set_distinct_values)
  then show ?thesis
    by (simp only: sum_present all quantities_def)
qed

lemma member_le_sum_list_int:
  "\<forall>x\<in>set xs. 0 \<le> x \<Longrightarrow> (y :: int) \<in> set xs \<Longrightarrow> y \<le> sum_list xs"
proof (induction xs)
  case Nil
  then show ?case by simp
next
  case (Cons x xs)
  then have "0 \<le> sum_list xs" by (simp add: sum_list_nonneg)
  with Cons show ?case by auto
qed

lemma group_abs_le_total:
  assumes "list_all (\<lambda>r. key r \<noteq> None) df" and "k \<in> set (distinct_values key df)"
  shows "sum_list (map abs (present (cells_of key df k))) \<le> sum_list (map abs (quantities df))"
proof -
  let ?xs = "map (\<lambda>k. sum_list (map abs (present (cells_of key df k)))) (distinct_values key df)"
  have "\<forall>x\<in>set ?xs. 0 \<le> x"
    by (auto intro!: sum_list_nonneg)
  moreover from assms(2) have "sum_list (map abs (present (cells_of key df k))) \<in> set ?xs"
    by auto
  ultimately have "sum_list (map abs (present (cells_of key df k))) \<le> sum_list ?xs"
    by (rule member_le_sum_list_int)
  also have "\<dots> = sum_list (map abs (quantities df))"
    using assms(1) by (rule partition_sum_present)
  finally show ?thesis .
qed

section \<open>The maximum and its label\<close>




lemma idxmax_raises: "idxmax s = Inl e \<longleftrightarrow> s = [] \<and> e = ValueError"
  by (cases s) (auto simp: idxmax_def)



section \<open>What the app cells compute\<close>

lemma grouped_data_selectbox:
  "grouped_data (selectbox sel) df = sum_per_value (selected_column sel) df"
  by (cases sel) (simp_all add: grouped_data_def groupby_sum_eq)


lemma visualization_chart:
  "bar_chart (snd (py_visualization w vars))
     = sum_per_value (selected_column (selected w)) (v_df vars)"
  by (simp add: py_visualization_def Let_def grouped_data_selectbox)

lemma visualization_binding:
  "v_grouped_data (fst (py_visualization w vars))
     = Bound (sum_per_value (selected_column (selected w)) (v_df vars))"
  by (simp add: py_visualization_def Let_def grouped_data_selectbox)

lemma dashboard_bindings:
  "v_grouped_data (fst (py_dashboard w vars))
     = Bound (sum_per_value (selected_column (selected w)) (v_df vars))
   \<and> v_total_sales (fst (py_dashboard w vars))
       = Bound (library_sum (float64_column (v_df vars)) (quantities (v_df vars)))
   \<and> v_avg_sales (fst (py_dashboard w vars)) = Bound (mean_of (quantities (v_df vars)))"
  by (cases "selected w")
    (simp_all add: py_dashboard_def Let_def grouped_data_def groupby_sum_eq series_sum_eq
      series_mean_eq mean_of_def float64_column_def quantities_def split: sum.splits)



lemma dashboard_rendered:
  assumes "snd (py_dashboard w vars) = Inr d"
  shows "bar_chart d = sum_per_value (selected_column (selected w)) (v_df vars)
       \<and> number_shown (hd (metric_cards d))
           = library_sum (float64_column (v_df vars)) (quantities (v_df vars))"
  using assms
  by (cases "selected w")
    (auto simp: py_dashboard_def Let_def grouped_data_def groupby_sum_eq series_sum_eq
      float64_column_def quantities_def split: sum.splits)

section \<open>Claims about the two apps\<close>

text \<open>
  C1, as amended. For every dataframe and both grouping selections, the table that each
  app computes is the sum per value: exactly one row for every distinct present
  (non-missing) value of the selected column, carrying the library's sum of the present
  TOTALSALESQUANTITY of the rows with that value. The library's sum is the sum modulo
  \<open>2 ^ 64\<close> for an int64 column (the sum itself while the absolute values add up to less
  than \<open>2 ^ 63\<close>), and the sum itself for a float64 column while the absolute values add
  up to at most \<open>2 ^ 53\<close>. App 1 hands this table to the chart and to its binding; App 2
  binds it to \<^verbatim>\<open>grouped_data\<close> and charts it whenever it renders. In App 1 it is the
  only computation on the data: two dataframes with the same grouped table give the same
  rendering.
\<close>

theorem grouping_is_sum_per_value:
  "bar_chart (snd (py_visualization w vars))
     = sum_per_value (selected_column (selected w)) (v_df vars)
   \<and> v_grouped_data (fst (py_visualization w vars))
       = Bound (sum_per_value (selected_column (selected w)) (v_df vars))
   \<and> v_grouped_data (fst (py_dashboard w vars))
       = Bound (sum_per_value (selected_column (selected w)) (v_df vars))
   \<and> (snd (py_dashboard w vars) = Inr d
        \<longrightarrow> bar_chart d = sum_per_value (selected_column (selected w)) (v_df vars))
   \<and> distinct (map fst (sum_per_value key df))
   \<and> set (map fst (sum_per_value key df)) = {k. Some k \<in> set (map key df)}
   \<and> map snd (sum_per_value key df)
       = map (\<lambda>k. library_sum (float64_column df) (present (cells_of key df k)))
           (map fst (sum_per_value key df))
   \<and> (\<exists>v. library_sum False qs = Int64 v \<and> 2 ^ 64 dvd sint v - sum_list qs)
   \<and> (sum_list (map abs qs) < 2 ^ 63
        \<longrightarrow> num_val (library_sum False qs) = Some (of_int (sum_list qs)))
   \<and> (sum_list (map abs qs) \<le> 2 ^ 53
        \<longrightarrow> num_val (library_sum True qs) = Some (of_int (sum_list qs)))
   \<and> (grouped_data (selectbox (selected w)) (v_df vars)
         = grouped_data (selectbox (selected w)) (v_df vars')
        \<longrightarrow> snd (py_visualization w vars) = snd (py_visualization w vars'))"
proof (intro conjI impI)
  show "bar_chart (snd (py_visualization w vars))
          = sum_per_value (selected_column (selected w)) (v_df vars)"
    by (rule visualization_chart)
  show "v_grouped_data (fst (py_visualization w vars))
          = Bound (sum_per_value (selected_column (selected w)) (v_df vars))"
    by (rule visualization_binding)
  show "v_grouped_data (fst (py_dashboard w vars))
          = Bound (sum_per_value (selected_column (selected w)) (v_df vars))"
    using dashboard_bindings[of w vars] by blast
  show "distinct (map fst (sum_per_value key df))"
    by (simp only: keys_sum_per_value distinct_distinct_values)
  show "set (map fst (sum_per_value key df)) = {k. Some k \<in> set (map key df)}"
    by (simp only: keys_sum_per_value set_distinct_values)
  show "map snd (sum_per_value key df)
       = map (\<lambda>k. library_sum (float64_column df) (present (cells_of key df k)))
           (map fst (sum_per_value key df))"
    by (simp add: sum_per_value_def comp_def float64_column_def)
  show "\<exists>v. library_sum False qs = Int64 v \<and> 2 ^ 64 dvd sint v - sum_list qs"
    using sint_of_int_mod[of "sum_list qs"] by (simp add: library_sum_def)
next
  assume "snd (py_dashboard w vars) = Inr d"
  then show "bar_chart d = sum_per_value (selected_column (selected w)) (v_df vars)"
    using dashboard_rendered by blast
next
  assume "sum_list (map abs qs) < 2 ^ 63"
  then show "num_val (library_sum False qs) = Some (of_int (sum_list qs))"
    by (rule library_sum_int64_exact)
next
  assume "sum_list (map abs qs) \<le> 2 ^ 53"
  then show "num_val (library_sum True qs) = Some (of_int (sum_list qs))"
    by (rule library_sum_float64_exact)
next
  assume "grouped_data (selectbox (selected w)) (v_df vars)
            = grouped_data (selectbox (selected w)) (v_df vars')"
  then show "snd (py_visualization w vars) = snd (py_visualization w vars')"
    by (simp add: py_visualization_def Let_def)
qed

text \<open>
  Witness for C1: a one-row dataframe and a two-row dataframe with the same grouped table
  (one brand, total 10) are rendered alike by App 1, and the dashboard, which renders on
  the first, charts that table; the sums 5 + 5 (int64) and 1 (float64) are in range.
\<close>

theorem grouping_is_sum_per_value_witness:
  "grouped_data (selectbox (selected by_brand)) (v_df (vars0 df_one))
     = grouped_data (selectbox (selected by_brand)) (v_df (vars0 df_two))
   \<and> snd (py_visualization by_brand (vars0 df_one)) = snd (py_visualization by_brand (vars0 df_two))
   \<and> bar_chart (snd (py_visualization by_brand (vars0 df_one))) = [(''amalgamalg #1'', Int64 10)]
   \<and> (\<exists>d. snd (py_dashboard by_brand (vars0 df_one)) = Inr d
          \<and> bar_chart d = [(''amalgamalg #1'', Int64 10)])
   \<and> sum_list (map abs [5, 5 :: int]) < 2 ^ 63
   \<and> num_val (library_sum False [5, 5]) = Some 10
   \<and> sum_list (map abs [1 :: int]) \<le> 2 ^ 53
   \<and> num_val (library_sum True [1]) = Some 1"
proof -
  have h: "grouped_data (selectbox (selected by_brand)) (v_df (vars0 df_one))
     = grouped_data (selectbox (selected by_brand)) (v_df (vars0 df_two))"
    by code_simp
  have v: "sum_per_value (selected_column (selected by_brand)) (v_df (vars0 df_one))
             = [(''amalgamalg #1'', Int64 10)]"
    by code_simp
  have g: "grouped_data (selectbox (selected by_brand)) (v_df (vars0 df_one))
             = [(''amalgamalg #1'', Int64 10)]"
    by code_simp
  have i: "idxmax [(''amalgamalg #1'', Int64 10)] = Inr (Some ''amalgamalg #1'')"
    by code_simp
  obtain d where d: "snd (py_dashboard by_brand (vars0 df_one)) = Inr d"
    by (simp add: py_dashboard_def Let_def g i)
  have r1: "sum_list (map abs [5, 5 :: int]) < 2 ^ 63" by simp
  have r2: "sum_list (map abs [1 :: int]) \<le> 2 ^ 53" by simp
  note inst = grouping_is_sum_per_value[of by_brand "vars0 df_one" d BRAND df_one _ "vars0 df_two"]
  from inst[of "[5, 5]"]
  have "bar_chart (snd (py_visualization by_brand (vars0 df_one)))
          = sum_per_value (selected_column (selected by_brand)) (v_df (vars0 df_one))"
    and "grouped_data (selectbox (selected by_brand)) (v_df (vars0 df_one))
          = grouped_data (selectbox (selected by_brand)) (v_df (vars0 df_two))
         \<longrightarrow> snd (py_visualization by_brand (vars0 df_one))
               = snd (py_visualization by_brand (vars0 df_two))"
    and "snd (py_dashboard by_brand (vars0 df_one)) = Inr d
         \<longrightarrow> bar_chart d = sum_per_value (selected_column (selected by_brand)) (v_df (vars0 df_one))"
    and "sum_list (map abs [5, 5 :: int]) < 2 ^ 63
         \<longrightarrow> num_val (library_sum False [5, 5]) = Some (of_int (sum_list [5, 5]))"
    by blast+
  with h v d r1 have a: "snd (py_visualization by_brand (vars0 df_one))
                        = snd (py_visualization by_brand (vars0 df_two))"
    and b: "bar_chart (snd (py_visualization by_brand (vars0 df_one))) = [(''amalgamalg #1'', Int64 10)]"
    and c: "bar_chart d = [(''amalgamalg #1'', Int64 10)]"
    and e: "num_val (library_sum False [5, 5]) = Some 10"
    by simp_all
  from inst[of "[1]"]
  have "sum_list (map abs [1 :: int]) \<le> 2 ^ 53
         \<longrightarrow> num_val (library_sum True [1]) = Some (of_int (sum_list [1]))"
    by blast
  with r2 have f: "num_val (library_sum True [1]) = Some 1"
    by simp
  from d c have x: "\<exists>d. snd (py_dashboard by_brand (vars0 df_one)) = Inr d
          \<and> bar_chart d = [(''amalgamalg #1'', Int64 10)]"
    by (intro exI[of _ d] conjI)
  show ?thesis
    by (intro conjI) (fact h, fact a, fact b, fact x, fact r1, fact e, fact r2, fact f)
qed

text \<open>
  Counterexample to C1 as stated, in three parts. (1) A row with a missing brand: the brand
  column has two distinct cells (\<^verbatim>\<open>unique()\<close> counts the missing one), the grouped table
  one row. (2) Two rows of one brand with the quantity \<open>2 ^ 62\<close> each: their sum is
  \<open>2 ^ 63\<close>, the grouped value is the int64 \<open>- (2 ^ 63)\<close>. (3) A one-row and a two-row
  dataframe with the same grouped table: the dashboard shows the average 10 for the first
  and 5 for the second, so the group-by/sum is not the only computation of App 2.
\<close>

theorem grouping_claim_fails:
  "nunique_cells (map BRAND df_missing_brand) = 2
   \<and> grouped_data ''BRAND'' df_missing_brand = [(''amalgamalg #1'', Int64 3)]
   \<and> grouped_data ''BRAND'' df_large = [(''amalgamalg #1'', Int64 (- (2 ^ 63)))]
   \<and> sum_list (present (cells_of BRAND df_large ''amalgamalg #1'')) = 2 ^ 63
   \<and> num_val (Int64 (- (2 ^ 63))) = Some (- (2 ^ 63))
   \<and> grouped_data (selectbox (selected by_brand)) (v_df (vars0 df_one))
       = grouped_data (selectbox (selected by_brand)) (v_df (vars0 df_two))
   \<and> map_sum id (\<lambda>d. map number_shown (metric_cards d)) (snd (py_dashboard by_brand (vars0 df_one)))
       = Inr [Int64 10, Float64 10, Int64 10]
   \<and> map_sum id (\<lambda>d. map number_shown (metric_cards d)) (snd (py_dashboard by_brand (vars0 df_two)))
       = Inr [Int64 10, Float64 5, Int64 10]
   \<and> snd (py_dashboard by_brand (vars0 df_one)) \<noteq> snd (py_dashboard by_brand (vars0 df_two))"
proof -
  have m1: "nunique_cells (map BRAND df_missing_brand) = 2"
    by code_simp
  have m2: "grouped_data ''BRAND'' df_missing_brand = [(''amalgamalg #1'', Int64 3)]"
    by code_simp
  have o1: "grouped_data ''BRAND'' df_large = [(''amalgamalg #1'', Int64 (- (2 ^ 63)))]"
    by code_simp
  have o2: "sum_list (present (cells_of BRAND df_large ''amalgamalg #1'')) = 2 ^ 63"
    by code_simp
  have o3: "num_val (Int64 (- (2 ^ 63))) = Some (- (2 ^ 63))"
    by simp
  have g: "grouped_data (selectbox (selected by_brand)) (v_df (vars0 df_one))
     = grouped_data (selectbox (selected by_brand)) (v_df (vars0 df_two))"
    by code_simp
  have a: "map_sum id (\<lambda>d. map number_shown (metric_cards d))
             (snd (py_dashboard by_brand (vars0 df_one)))
       = Inr [Int64 10, Float64 10, Int64 10]"
    by code_simp
  have b: "map_sum id (\<lambda>d. map number_shown (metric_cards d))
             (snd (py_dashboard by_brand (vars0 df_two)))
       = Inr [Int64 10, Float64 5, Int64 10]"
    by code_simp
  have n: "snd (py_dashboard by_brand (vars0 df_one)) \<noteq> snd (py_dashboard by_brand (vars0 df_two))"
  proof
    assume "snd (py_dashboard by_brand (vars0 df_one)) = snd (py_dashboard by_brand (vars0 df_two))"
    with a b have "[Int64 10, Float64 10, Int64 10] = [Int64 10, Float64 5, Int64 10]" by simp
    then show False by simp
  qed
  show ?thesis
    by (intro conjI) (fact m1, fact m2, fact o1, fact o2, fact o3, fact g, fact a, fact b, fact n)
qed





lemma rat_of_int_sum_list: "(of_int (sum_list xs) :: rat) = sum_list (map of_int xs)"
  by (induction xs) simp_all

lemma word_of_int_sum_list: "(of_int (sum_list xs) :: int64) = sum_list (map of_int xs)"
  by (induction xs) simp_all

text \<open>
  While the absolute values of all quantities stay in range, every group's sum is exact.
\<close>

lemma groups_exact:
  assumes keys: "list_all (\<lambda>r. key r \<noteq> None) df"
    and range: "if float64_column df then sum_list (map abs (quantities df)) \<le> 2 ^ 53
                else sum_list (map abs (quantities df)) < 2 ^ 63"
    and k: "k \<in> set (distinct_values key df)"
  shows "num_val (library_sum (float64_column df) (present (cells_of key df k)))
           = Some (of_int (sum_list (present (cells_of key df k))))"
proof -
  have le: "sum_list (map abs (present (cells_of key df k))) \<le> sum_list (map abs (quantities df))"
    using keys k by (rule group_abs_le_total)
  show ?thesis
  proof (cases "float64_column df")
    case True
    with range le have "sum_list (map abs (present (cells_of key df k))) \<le> 2 ^ 53"
      by simp
    with True show ?thesis
      by (simp add: library_sum_float64_exact)
  next
    case False
    with range le have "sum_list (map abs (present (cells_of key df k))) < 2 ^ 63"
      by simp
    with False show ?thesis
      by (simp add: library_sum_int64_exact)
  qed
qed

lemma total_exact:
  assumes "if float64_column df then sum_list (map abs (quantities df)) \<le> 2 ^ 53
           else sum_list (map abs (quantities df)) < 2 ^ 63"
  shows "num_val (library_sum (float64_column df) (quantities df))
           = Some (of_int (sum_list (quantities df)))"
  using assms
  by (cases "float64_column df") (simp_all add: library_sum_float64_exact library_sum_int64_exact)

lemma bars_exact:
  assumes keys: "list_all (\<lambda>r. key r \<noteq> None) df"
    and range: "if float64_column df then sum_list (map abs (quantities df)) \<le> 2 ^ 53
                else sum_list (map abs (quantities df)) < 2 ^ 63"
  shows "determined (sum_per_value key df)
       \<and> num_val (library_sum (float64_column df) (quantities df))
           = Some (sum_list (map (val \<circ> snd) (sum_per_value key df)))"
proof -
  let ?S = "\<lambda>k. sum_list (present (cells_of key df k))"
  have each: "num_val (library_sum (float64_column df) (present (cells_of key df k)))
                = Some (of_int (?S k))"
    if "k \<in> set (distinct_values key df)" for k
    using keys range that by (rule groups_exact)
  have det: "determined (sum_per_value key df)"
    by (simp add: determined_def sum_per_value_def list_all_iff each float64_column_def[symmetric])
  have "map (val \<circ> snd) (sum_per_value key df)
          = map (\<lambda>k. of_int (?S k)) (distinct_values key df)"
    by (simp add: sum_per_value_def val_def each float64_column_def[symmetric])
  then have "sum_list (map (val \<circ> snd) (sum_per_value key df))
               = of_int (sum_list (map ?S (distinct_values key df)))"
    by (simp add: rat_of_int_sum_list comp_def)
  also have "sum_list (map ?S (distinct_values key df)) = sum_list (quantities df)"
    using partition_sum_present[OF keys, of "\<lambda>x. x"] by simp
  finally have "sum_list (map (val \<circ> snd) (sum_per_value key df)) = of_int (sum_list (quantities df))" .
  with total_exact[OF range] det show ?thesis
    by simp
qed

lemma bars_int64:
  assumes keys: "list_all (\<lambda>r. key r \<noteq> None) df" and int: "\<not> float64_column df"
  shows "\<exists>ws. map snd (sum_per_value key df) = map Int64 ws
           \<and> library_sum (float64_column df) (quantities df)
               = Int64 (of_int (sum_list (map sint ws)))"
proof -
  let ?S = "\<lambda>k. sum_list (present (cells_of key df k))"
  let ?ws = "map (\<lambda>k. of_int (?S k) :: int64) (distinct_values key df)"
  from int have bars: "map snd (sum_per_value key df) = map Int64 ?ws"
    by (simp add: sum_per_value_def library_sum_def float64_column_def comp_def)
  have "(of_int (sum_list (map sint ?ws)) :: int64) = sum_list ?ws"
    by (rule word_sum_list_sint[symmetric])
  also have "\<dots> = of_int (sum_list (map ?S (distinct_values key df)))"
    by (simp add: word_of_int_sum_list comp_def)
  also have "sum_list (map ?S (distinct_values key df)) = sum_list (quantities df)"
    using partition_sum_present[OF keys, of "\<lambda>x. x"] by simp
  finally have "library_sum (float64_column df) (quantities df)
                  = Int64 (of_int (sum_list (map sint ?ws)))"
    using int by (simp add: library_sum_def)
  with bars show ?thesis by blast
qed

text \<open>
  C9, as amended. When no row has a missing value in the selected grouping column, the
  table of per-group sums that both apps compute and the total that the dashboard binds
  to \<^verbatim>\<open>total_sales\<close> (and shows on its first card when it renders) are related as
  follows. For an int64 quantity column the per-group sums are int64 numbers that add up
  to \<^verbatim>\<open>total_sales\<close> modulo \<open>2 ^ 64\<close>. The per-group sums add up to \<^verbatim>\<open>total_sales\<close>
  exactly when the absolute values of the quantities add up to less than \<open>2 ^ 63\<close>
  (int64 column) or to at most \<open>2 ^ 53\<close> (float64 column).
\<close>

theorem group_sums_add_up_to_total:
  assumes "list_all (\<lambda>r. selected_column (selected w) r \<noteq> None) (v_df vars)"
  shows "\<exists>g t. bar_chart (snd (py_visualization w vars)) = g
           \<and> v_grouped_data (fst (py_dashboard w vars)) = Bound g
           \<and> v_total_sales (fst (py_dashboard w vars)) = Bound t
           \<and> (snd (py_dashboard w vars) = Inr d \<longrightarrow>
                bar_chart d = g \<and> number_shown (hd (metric_cards d)) = t)
           \<and> (\<not> float64_column (v_df vars) \<longrightarrow>
                (\<exists>ws. map snd g = map Int64 ws \<and> t = Int64 (of_int (sum_list (map sint ws)))))
           \<and> ((if float64_column (v_df vars)
                then sum_list (map abs (quantities (v_df vars))) \<le> 2 ^ 53
                else sum_list (map abs (quantities (v_df vars))) < 2 ^ 63) \<longrightarrow>
                determined g \<and> num_val t = Some (sum_list (map (val \<circ> snd) g)))"
proof -
  let ?g = "sum_per_value (selected_column (selected w)) (v_df vars)"
  let ?t = "library_sum (float64_column (v_df vars)) (quantities (v_df vars))"
  have a: "bar_chart (snd (py_visualization w vars)) = ?g"
    by (rule visualization_chart)
  have b: "v_grouped_data (fst (py_dashboard w vars)) = Bound ?g"
    by (rule dashboard_bindings[THEN conjunct1])
  have c: "v_total_sales (fst (py_dashboard w vars)) = Bound ?t"
    by (rule dashboard_bindings[THEN conjunct2, THEN conjunct1])
  have r: "snd (py_dashboard w vars) = Inr d \<longrightarrow>
             bar_chart d = ?g \<and> number_shown (hd (metric_cards d)) = ?t"
    using dashboard_rendered[of w vars d] by (intro impI)
  have i: "\<not> float64_column (v_df vars) \<longrightarrow>
             (\<exists>ws. map snd ?g = map Int64 ws \<and> ?t = Int64 (of_int (sum_list (map sint ws))))"
    using bars_int64[OF assms] by (intro impI)
  have e: "(if float64_column (v_df vars)
            then sum_list (map abs (quantities (v_df vars))) \<le> 2 ^ 53
            else sum_list (map abs (quantities (v_df vars))) < 2 ^ 63) \<longrightarrow>
           determined ?g \<and> num_val ?t = Some (sum_list (map (val \<circ> snd) ?g))"
    using bars_exact[OF assms] by (intro impI)
  show ?thesis
    by (intro exI[of _ ?g] exI[of _ ?t] conjI) (fact a, fact b, fact c, fact r, fact i, fact e)
qed

text \<open>
  Witness for C9: in the three sample rows every state is present and no quantity is
  missing; the two bars by state (int64 5 and 7) add up to the total 12, which is also the
  number on the first card of the dashboard.
\<close>

theorem group_sums_add_up_to_total_witness:
  "list_all (\<lambda>r. selected_column (selected by_state) r \<noteq> None) (v_df (vars0 df_three))
   \<and> \<not> float64_column (v_df (vars0 df_three))
   \<and> sum_list (map abs (quantities (v_df (vars0 df_three)))) < 2 ^ 63
   \<and> bar_chart (snd (py_visualization by_state (vars0 df_three)))
       = [(''CA'', Int64 5), (''TX'', Int64 7)]
   \<and> v_total_sales (fst (py_dashboard by_state (vars0 df_three))) = Bound (Int64 12)
   \<and> sum_list (map (val \<circ> snd) (bar_chart (snd (py_visualization by_state (vars0 df_three))))) = 12
   \<and> (\<exists>d. snd (py_dashboard by_state (vars0 df_three)) = Inr d
          \<and> number_shown (hd (metric_cards d)) = Int64 12)"
proof -
  have h: "list_all (\<lambda>r. selected_column (selected by_state) r \<noteq> None) (v_df (vars0 df_three))"
    by code_simp
  have fl: "\<not> float64_column (v_df (vars0 df_three))"
    by code_simp
  have q: "quantities (v_df (vars0 df_three)) = [3, 4, 5]"
    by code_simp
  have ab: "sum_list (map abs (quantities (v_df (vars0 df_three)))) < 2 ^ 63"
    by (simp add: q)
  have G: "grouped_data (selectbox (selected by_state)) (v_df (vars0 df_three))
             = [(''CA'', Int64 5), (''TX'', Int64 7)]"
    by code_simp
  have i: "idxmax [(''CA'', Int64 5), (''TX'', Int64 7)] = Inr (Some ''TX'')"
    by code_simp
  obtain d where d: "snd (py_dashboard by_state (vars0 df_three)) = Inr d"
    by (simp add: py_dashboard_def Let_def G i)
  have bars: "bar_chart (snd (py_visualization by_state (vars0 df_three)))
       = [(''CA'', Int64 5), (''TX'', Int64 7)]"
    by (simp add: py_visualization_def Let_def G)
  from group_sums_add_up_to_total[OF h, of d] obtain g t where
    g: "bar_chart (snd (py_visualization by_state (vars0 df_three))) = g"
    and t: "v_total_sales (fst (py_dashboard by_state (vars0 df_three))) = Bound t"
    and r: "snd (py_dashboard by_state (vars0 df_three)) = Inr d \<longrightarrow>
                bar_chart d = g \<and> number_shown (hd (metric_cards d)) = t"
    and e: "(if float64_column (v_df (vars0 df_three))
                then sum_list (map abs (quantities (v_df (vars0 df_three)))) \<le> 2 ^ 53
                else sum_list (map abs (quantities (v_df (vars0 df_three)))) < 2 ^ 63) \<longrightarrow>
                determined g \<and> num_val t = Some (sum_list (map (val \<circ> snd) g))"
    by (elim exE conjE) (rule that)
  from e fl ab have ex: "num_val t = Some (sum_list (map (val \<circ> snd) g))"
    by simp
  have total: "v_total_sales (fst (py_dashboard by_state (vars0 df_three))) = Bound (Int64 12)"
    by code_simp
  with t have t12: "t = Int64 12"
    by simp
  from ex t12 have "sum_list (map (val \<circ> snd) g) = 12"
    by simp
  with g have s: "sum_list (map (val \<circ> snd) (bar_chart (snd (py_visualization by_state (vars0 df_three))))) = 12"
    by simp
  from r d t12 have "number_shown (hd (metric_cards d)) = Int64 12"
    by simp
  with d have x: "\<exists>d. snd (py_dashboard by_state (vars0 df_three)) = Inr d
          \<and> number_shown (hd (metric_cards d)) = Int64 12"
    by (intro exI[of _ d] conjI)
  show ?thesis
    by (intro conjI) (fact h, fact fl, fact ab, fact bars, fact total, fact s, fact x)
qed

text \<open>
  Counterexample to C9 as stated: two rows in two states with the quantity \<open>2 ^ 62\<close>
  each. No state is missing; the two per-group sums are \<open>2 ^ 62\<close> each and add up to
  \<open>2 ^ 63\<close>, while \<^verbatim>\<open>total_sales\<close> is the int64 \<open>- (2 ^ 63)\<close>.
\<close>

theorem group_sums_claim_fails:
  "list_all (\<lambda>r. selected_column (selected by_state) r \<noteq> None) (v_df (vars0 df_large))
   \<and> v_grouped_data (fst (py_dashboard by_state (vars0 df_large)))
       = Bound [(''CA'', Int64 (2 ^ 62)), (''TX'', Int64 (2 ^ 62))]
   \<and> sum_list (map (val \<circ> snd) [(''CA'', Int64 (2 ^ 62)), (''TX'', Int64 (2 ^ 62))]) = 2 ^ 63
   \<and> v_total_sales (fst (py_dashboard by_state (vars0 df_large))) = Bound (Int64 (- (2 ^ 63)))
   \<and> val (Int64 (- (2 ^ 63))) = - (2 ^ 63)"
proof -
  have a: "list_all (\<lambda>r. selected_column (selected by_state) r \<noteq> None) (v_df (vars0 df_large))"
    by code_simp
  have b: "v_grouped_data (fst (py_dashboard by_state (vars0 df_large)))
       = Bound [(''CA'', Int64 (2 ^ 62)), (''TX'', Int64 (2 ^ 62))]"
    by code_simp
  have c: "sum_list (map (val \<circ> snd) [(''CA'', Int64 (2 ^ 62)), (''TX'', Int64 (2 ^ 62))]) = 2 ^ 63"
    by (simp add: val_def)
  have d: "v_total_sales (fst (py_dashboard by_state (vars0 df_large))) = Bound (Int64 (- (2 ^ 63)))"
    by code_simp
  have e: "val (Int64 (- (2 ^ 63))) = - (2 ^ 63)"
    by (simp add: val_def)
  show ?thesis
    by (intro conjI) (fact a, fact b, fact c, fact d, fact e)
qed

text \<open>
  C10. On an empty query result the dashboard cell does not complete: the grouped series
  is empty and \<^verbatim>\<open>idxmax\<close> raises ValueError, whatever the widgets and the other variables
  are. Before that line the cell has bound \<^verbatim>\<open>avg_sales\<close> to NaN (the mean of no row)
  and \<^verbatim>\<open>total_sales\<close> to 0, and the percentage of any average over a total of 0 is not
  a finite number.
\<close>

theorem dashboard_fails_on_empty_result:
  "snd (py_dashboard w (vars\<lparr>v_df := []\<rparr>)) = Inl ValueError
   \<and> idxmax (grouped_data (selectbox (selected w)) []) = Inl ValueError
   \<and> v_avg_sales (fst (py_dashboard w (vars\<lparr>v_df := []\<rparr>))) = Bound Not_finite
   \<and> v_total_sales (fst (py_dashboard w (vars\<lparr>v_df := []\<rparr>))) = Bound (Int64 0)
   \<and> percent_of_total avg (Int64 0) = Not_finite"
  by (cases "selected w")
    (simp_all add: py_dashboard_def Let_def grouped_data_def groupby_sum_def groupby_def
      idxmax_def series_sum_def int64_sum_def has_missing_def series_mean_def float64_acc_def
      series_count_def percent_of_total_def)

section \<open>Claims about the semantic view\<close>

text \<open>A relation whose sources are never targets has no cycle.\<close>

lemma acyclic_disjoint:
  assumes "Domain r \<inter> Range r = {}"
  shows "acyclic r"
proof (rule acyclicI, rule allI, rule notI)
  fix x assume "(x, x) \<in> r\<^sup>+"
  then have "x \<in> Domain (r\<^sup>+)" and "x \<in> Range (r\<^sup>+)"
    by (rule DomainI, rule RangeI)
  then have "x \<in> Domain r \<inter> Range r"
    by (simp add: trancl_domain trancl_range)
  with assms show False by simp
qed

lemma table_references_eq:
  "table_references TPCDS_SEMANTIC_VIEW_SM =
    [(''STORESALES'', ''CUSTOMER''), (''STORESALES'', ''DATE''), (''STORESALES'', ''DEMO''),
     (''STORESALES'', ''ITEM''), (''STORESALES'', ''STORE'')]"
  by code_simp

text \<open>
  C2, as amended. Every fact, dimension and metric of the view is qualified by exactly one
  declared table alias, no qualified name is declared twice, and every one resolves to
  exactly one underlying column. For every fact and dimension, and for the metrics
  TOTALSALESPRICE and TOTALSALESQUANTITY, the defining expression refers to one column of
  the attribute's own table. The metric STORESALES.TOTALCOST is \<^verbatim>\<open>SUM(item.cost)\<close>: it
  refers to the fact COST of the table ITEM and so resolves to the column
  I_WHOLESALE_COST of ITEM, not to a column of STORESALES.
\<close>

theorem attributes_resolve:
  "list_all (\<lambda>a. length (qualifying_tables TPCDS_SEMANTIC_VIEW_SM a) = 1)
     (attributes TPCDS_SEMANTIC_VIEW_SM)
   \<and> distinct (map qualified_name (attributes TPCDS_SEMANTIC_VIEW_SM))
   \<and> list_all (\<lambda>a. length (resolves TPCDS_SEMANTIC_VIEW_SM a) = 1)
       (attributes TPCDS_SEMANTIC_VIEW_SM)
   \<and> list_all one_own_column (facts TPCDS_SEMANTIC_VIEW_SM @ dimensions TPCDS_SEMANTIC_VIEW_SM)
   \<and> map (\<lambda>a. (attr_name a, one_own_column a, resolves TPCDS_SEMANTIC_VIEW_SM a))
       (metrics TPCDS_SEMANTIC_VIEW_SM)
     = [(''TOTALCOST'', False, [(''ITEM'', ''I_WHOLESALE_COST'')]),
        (''TOTALSALESPRICE'', True, [(''STORESALES'', ''SS_SALES_PRICE'')]),
        (''TOTALSALESQUANTITY'', True, [(''STORESALES'', ''SS_QUANTITY'')])]"
proof (intro conjI)
  show "list_all (\<lambda>a. length (qualifying_tables TPCDS_SEMANTIC_VIEW_SM a) = 1)
     (attributes TPCDS_SEMANTIC_VIEW_SM)"
    by code_simp
  show "distinct (map qualified_name (attributes TPCDS_SEMANTIC_VIEW_SM))"
    by code_simp
  show "list_all (\<lambda>a. length (resolves TPCDS_SEMANTIC_VIEW_SM a) = 1)
       (attributes TPCDS_SEMANTIC_VIEW_SM)"
    by code_simp
  show "list_all one_own_column (facts TPCDS_SEMANTIC_VIEW_SM @ dimensions TPCDS_SEMANTIC_VIEW_SM)"
    by code_simp
  show "map (\<lambda>a. (attr_name a, one_own_column a, resolves TPCDS_SEMANTIC_VIEW_SM a))
       (metrics TPCDS_SEMANTIC_VIEW_SM)
     = [(''TOTALCOST'', False, [(''ITEM'', ''I_WHOLESALE_COST'')]),
        (''TOTALSALESPRICE'', True, [(''STORESALES'', ''SS_SALES_PRICE'')]),
        (''TOTALSALESQUANTITY'', True, [(''STORESALES'', ''SS_QUANTITY'')])]"
    by code_simp
qed

text \<open>
  Counterexample to C2 as stated: the first metric, TOTALCOST, is qualified by STORESALES
  and its defining expression refers to \<^verbatim>\<open>item.cost\<close>, a name of the table ITEM, so not
  every attribute refers to one column of its own table.
\<close>

theorem totalcost_refers_to_other_table:
  "attr_name (hd (metrics TPCDS_SEMANTIC_VIEW_SM)) = ''TOTALCOST''
   \<and> ident (table_alias (hd (metrics TPCDS_SEMANTIC_VIEW_SM))) = ''STORESALES''
   \<and> references (expression (hd (metrics TPCDS_SEMANTIC_VIEW_SM))) = [(Some ''ITEM'', ''COST'')]
   \<and> \<not> one_own_column (hd (metrics TPCDS_SEMANTIC_VIEW_SM))
   \<and> \<not> list_all one_own_column (attributes TPCDS_SEMANTIC_VIEW_SM)"
  by code_simp

text \<open>
  C3. The dimension tables of the view are CUSTOMER, DATE, DEMO, ITEM and STORE; the
  relationships give a join path from STORESALES to each of them, every relationship
  being a foreign-key-style link onto the primary key of the referenced table; and the
  directed graph of table references has no cycle.
\<close>

theorem relationships_join_paths_acyclic:
  "dimension_tables TPCDS_SEMANTIC_VIEW_SM = [''CUSTOMER'', ''DATE'', ''DEMO'', ''ITEM'', ''STORE'']
   \<and> list_all (\<lambda>t. join_path TPCDS_SEMANTIC_VIEW_SM [''STORESALES'', t])
        (dimension_tables TPCDS_SEMANTIC_VIEW_SM)
   \<and> list_all (foreign_key_link TPCDS_SEMANTIC_VIEW_SM) (relationships TPCDS_SEMANTIC_VIEW_SM)
   \<and> acyclic (set (table_references TPCDS_SEMANTIC_VIEW_SM))"
proof (intro conjI)
  show "dimension_tables TPCDS_SEMANTIC_VIEW_SM = [''CUSTOMER'', ''DATE'', ''DEMO'', ''ITEM'', ''STORE'']"
    by code_simp
  show "list_all (\<lambda>t. join_path TPCDS_SEMANTIC_VIEW_SM [''STORESALES'', t])
        (dimension_tables TPCDS_SEMANTIC_VIEW_SM)"
    by code_simp
  show "list_all (foreign_key_link TPCDS_SEMANTIC_VIEW_SM) (relationships TPCDS_SEMANTIC_VIEW_SM)"
    by code_simp
  show "acyclic (set (table_references TPCDS_SEMANTIC_VIEW_SM))"
    unfolding table_references_eq by (rule acyclic_disjoint) auto
qed

text \<open>
  C4, evaluated on the declaration. There are five relationships, each from STORESALES
  (the table STORE_SALES) to one of the five dimension tables, each on surrogate key
  columns. Four of them are many-to-one. The fifth, SALETOSTORE, is one-to-one as
  declared: its referencing column SS_STORE_SK is the declared primary key of
  STORESALES, so both of its ends are keys.
\<close>

theorem relationship_cardinalities:
  "map (\<lambda>r. (rel_name r, ident (from_table r), ident (to_table r),
             link_cardinality TPCDS_SEMANTIC_VIEW_SM r))
     (relationships TPCDS_SEMANTIC_VIEW_SM)
   = [(''SALESTOCUSTOMER'', ''STORESALES'', ''CUSTOMER'', Many_to_one),
      (''SALESTODATE'', ''STORESALES'', ''DATE'', Many_to_one),
      (''SALESTODEMO'', ''STORESALES'', ''DEMO'', Many_to_one),
      (''SALESTOITEM'', ''STORESALES'', ''ITEM'', Many_to_one),
      (''SALETOSTORE'', ''STORESALES'', ''STORE'', One_to_one)]
   \<and> list_all (\<lambda>r. list_all surrogate_key (from_columns r @ to_columns r))
        (relationships TPCDS_SEMANTIC_VIEW_SM)
   \<and> map_option primary_key (find_table TPCDS_SEMANTIC_VIEW_SM ''STORESALES'')
       = Some [''SS_STORE_SK'']
   \<and> from_columns (last (relationships TPCDS_SEMANTIC_VIEW_SM)) = [''SS_STORE_SK'']"
  by code_simp

section \<open>Claims about the SQL statements\<close>

text \<open>
  C5, as amended. Every statement that the notebook executes is of one of the listed forms
  (USE DATABASE, USE SCHEMA, SHOW VIEWS, CREATE OR REPLACE SEMANTIC VIEW, SHOW SEMANTIC
  VIEWS, DESC SEMANTIC VIEW, SELECT ... FROM SEMANTIC_VIEW(...)) or is one of three further
  statements: \<^verbatim>\<open>use role accountadmin\<close>, the SELECT over the result of DESC SEMANTIC VIEW
  that the flow operator chains to it, and the SELECT of the link text \<^verbatim>\<open>AS RESULT\<close>.
  Of the eleven statements, eight are of a listed form.
\<close>

theorem statements_listed_or_further:
  "list_all (\<lambda>s. listed_form s \<or> further_form s) notebook_statements
   \<and> length notebook_statements = 11
   \<and> length (filter listed_form notebook_statements) = 8
   \<and> filter further_form notebook_statements
       = [USE_ROLE ''accountadmin''] @ tl (executed (hd sql_step6)) @ sql_step7"
  by code_simp

text \<open>
  Counterexample to C5 as stated: three executed statements are of none of the listed
  forms.
\<close>

theorem statements_outside_listed_forms:
  "filter (\<lambda>s. \<not> listed_form s) notebook_statements
     = [USE_ROLE ''accountadmin'',
        SELECT_FROM_RESULT
           [(''object_kind'', ''object_kind''), (''property_value'', ''parent_object''),
            (''object_name'', ''object_name'')]
           [(''object_kind'', [''METRIC'', ''DIMENSION'']), (''property'', [''TABLE''])],
        SELECT_EXPR
        (Concat (Concat (Concat (Concat (Literal ''https://app.snowflake.com/'')
           CURRENT_ORGANIZATION_NAME) (Literal ''/'')) CURRENT_ACCOUNT_NAME)
           (Literal ''/#/studio/analyst/databases/<MDT3_DEFAULT_DATABASE##>/schemas/DEFAULT_SCHEMA/semanticView/TPCDS_SEMANTIC_VIEW_SM/edit''))
        ''RESULT'']
   \<and> \<not> list_all listed_form notebook_statements"
  by code_simp

text \<open>A statement that is no creation, and chains none, leaves the catalog as it is.\<close>

lemma exec_keeps_catalog: "\<not> changes_catalog s \<Longrightarrow> catalog (exec s w) = catalog w"
  by (induction s arbitrary: w) auto

lemma run_keeps_catalog:
  "list_all (\<lambda>s. \<not> changes_catalog s) stmts \<Longrightarrow> catalog (run stmts w) = catalog w"
  unfolding run_def
  by (induction stmts arbitrary: w) (auto simp: exec_keeps_catalog)

lemma before_creation_eq:
  "before_creation =
     [USE_DATABASE ''<mdt3_default_database##>'', USE_SCHEMA ''default_schema'', SHOW_VIEWS,
      USE_ROLE ''accountadmin'']"
  by code_simp

lemma statements_split:
  "notebook_statements
     = before_creation @ CREATE_OR_REPLACE_SEMANTIC_VIEW TPCDS_SEMANTIC_VIEW_SM # after_creation"
  by code_simp

lemma after_creation_read_only: "list_all (\<lambda>s. \<not> changes_catalog s) after_creation"
  by code_simp

lemma ident_names:
  "ident ''<mdt3_default_database##>'' = ''<MDT3_DEFAULT_DATABASE##>''"
  "ident ''default_schema'' = ''DEFAULT_SCHEMA''"
  "ident (view_name TPCDS_SEMANTIC_VIEW_SM) = ''TPCDS_SEMANTIC_VIEW_SM''"
  by code_simp+

lemma catalog_after_creation:
  "catalog (run (before_creation @ [CREATE_OR_REPLACE_SEMANTIC_VIEW TPCDS_SEMANTIC_VIEW_SM]) w)
     (Some ''<MDT3_DEFAULT_DATABASE##>'', Some ''DEFAULT_SCHEMA'', ''TPCDS_SEMANTIC_VIEW_SM'')
   = Some TPCDS_SEMANTIC_VIEW_SM"
  by (simp add: before_creation_eq run_def ident_names)

text \<open>
  C6. The notebook executes exactly one CREATE OR REPLACE SEMANTIC VIEW statement. The
  statements after it that refer to the view are SHOW SEMANTIC VIEWS, DESC SEMANTIC VIEW
  and the two SELECT ... FROM SEMANTIC_VIEW queries; every statement after the creation
  leaves the catalog unchanged, one by one and all together, from any state of the
  warehouse. After the whole notebook, from any initial state, the name
  TPCDS_SEMANTIC_VIEW_SM in the schema in use is bound to the view as it was declared.
\<close>

theorem view_created_once_then_read_only:
  "length (filter is_create notebook_statements) = 1
   \<and> notebook_statements
       = before_creation @ CREATE_OR_REPLACE_SEMANTIC_VIEW TPCDS_SEMANTIC_VIEW_SM # after_creation
   \<and> filter (refers_to ''TPCDS_SEMANTIC_VIEW_SM'') after_creation
       = [SHOW_SEMANTIC_VIEWS, DESC_SEMANTIC_VIEW ''TPCDS_SEMANTIC_VIEW_SM''] @ sql_step8 @ cell1
   \<and> list_all (\<lambda>s. \<not> changes_catalog s) after_creation
   \<and> list_all (\<lambda>s. catalog (exec s w) = catalog w) after_creation
   \<and> catalog (run after_creation w) = catalog w
   \<and> catalog (run notebook_statements w0)
        (Some ''<MDT3_DEFAULT_DATABASE##>'', Some ''DEFAULT_SCHEMA'', ''TPCDS_SEMANTIC_VIEW_SM'')
       = Some TPCDS_SEMANTIC_VIEW_SM"
proof (intro conjI)
  show "length (filter is_create notebook_statements) = 1"
    by code_simp
  show "notebook_statements
       = before_creation @ CREATE_OR_REPLACE_SEMANTIC_VIEW TPCDS_SEMANTIC_VIEW_SM # after_creation"
    by (rule statements_split)
  show "filter (refers_to ''TPCDS_SEMANTIC_VIEW_SM'') after_creation
       = [SHOW_SEMANTIC_VIEWS, DESC_SEMANTIC_VIEW ''TPCDS_SEMANTIC_VIEW_SM''] @ sql_step8 @ cell1"
    by code_simp
  show ro: "list_all (\<lambda>s. \<not> changes_catalog s) after_creation"
    by (rule after_creation_read_only)
  then show "list_all (\<lambda>s. catalog (exec s w) = catalog w) after_creation"
    by (simp add: list_all_iff exec_keeps_catalog)
  from ro show "catalog (run after_creation w) = catalog w"
    by (rule run_keeps_catalog)
  have "run notebook_statements w0
          = run after_creation
              (run (before_creation @ [CREATE_OR_REPLACE_SEMANTIC_VIEW TPCDS_SEMANTIC_VIEW_SM]) w0)"
    by (subst statements_split) (simp add: run_def)
  then show "catalog (run notebook_statements w0)
        (Some ''<MDT3_DEFAULT_DATABASE##>'', Some ''DEFAULT_SCHEMA'', ''TPCDS_SEMANTIC_VIEW_SM'')
       = Some TPCDS_SEMANTIC_VIEW_SM"
    by (simp only: run_keeps_catalog[OF ro] catalog_after_creation)
qed

end
